theory Spec2Isabelle
  imports Complex_Main "HOL-Library.Multiset"
begin

section \<open>Text constants\<close>

text \<open>
  Strings are byte lists. The sources are UTF-8 files, so every character outside ASCII
  (umlauts, pictographs) is written as its UTF-8 byte sequence.
\<close>

definition auml :: string where "auml = [CHR 0xC3, CHR 0xA4]"
definition ouml :: string where "ouml = [CHR 0xC3, CHR 0xB6]"
definition uuml :: string where "uuml = [CHR 0xC3, CHR 0xBC]"
definition Uuml :: string where "Uuml = [CHR 0xC3, CHR 0x9C]"
definition wheelchair :: string where "wheelchair = [CHR 0xE2, CHR 0x99, CHR 0xBF]"
definition warning_sign :: string where
  "warning_sign = [CHR 0xE2, CHR 0x9A, CHR 0xA0, CHR 0xEF, CHR 0xB8, CHR 0x8F]"
definition nl :: string where "nl = [CHR 0x0A]"

text \<open>Decimal rendering of an integer, as a JavaScript template literal prints it.\<close>

definition digit :: "nat \<Rightarrow> char" where
  "digit d = ''0123456789'' ! d"

fun string_of_nat :: "nat \<Rightarrow> string" where
  "string_of_nat n =
     (if n < 10 then [digit n] else string_of_nat (n div 10) @ [digit (n mod 10)])"

declare string_of_nat.simps [simp del]

definition string_of_int :: "int \<Rightarrow> string" where
  "string_of_int i = (if i < 0 then CHR ''-'' # string_of_nat (nat (- i)) else string_of_nat (nat i))"

text \<open>
  \<^verbatim>\<open>Number::toString\<close>, which a template literal applies, on a number with an integer
  value. A safe integer (magnitude at most \<open>2^53\<close>) prints as its decimal numeral. Beyond,
  the digits printed are the shortest that read back to the same double, in exponent
  notation from \<open>10^21\<close> on: that printer is the parameter \<open>beyond\<close>.
\<close>

definition number_toString :: "(int \<Rightarrow> string) \<Rightarrow> int \<Rightarrow> string" where
  "number_toString beyond n =
     (if \<bar>n\<bar> \<le> 9007199254740992 then string_of_int n else beyond n)"


section \<open>Departure poller (src/js/monitor.js)\<close>

subsection \<open>Payload of the transit feed\<close>

text \<open>
  The shape is the one the code reads. A property the code tests before use
  (\<^verbatim>\<open>response.data && response.data.monitors\<close>, \<^verbatim>\<open>monitor.lines && ...\<close>,
  \<^verbatim>\<open>line.type || ...\<close>) is an option, \<open>None\<close> standing for an absent (or null) property.
  So is \<^verbatim>\<open>departure.departureTime\<close>, which the code reads a property of without a test:
  where it is absent, that read throws. Arrays are arrays and texts are texts.
\<close>

datatype exception = TypeError | Error string

record departureTime =
  countdown :: int

record departure =
  departureTime :: "departureTime option"

record departures =
  departure :: "departure list option"

record line =
  name :: string
  towards :: string
  type :: "string option"
  barrierFree :: "bool option"
  departures :: "departures option"

record monitor =
  lines :: "line list option"

record trafficInfo =
  title :: "string option"
  description :: "string option"
  subtitle :: "string option"

record data =
  monitors :: "monitor list option"
  trafficInfos :: "trafficInfo list option"

record response =
  data :: "data option"

definition MAX_DEPARTURES :: nat where
  "MAX_DEPARTURES = 8"

subsection \<open>mergeAPIResponses\<close>

text \<open>
  \<^verbatim>\<open>merged.data\<close> holds two arrays, both empty at first (the pair of lists below);
  \<^verbatim>\<open>forEach\<close> visits the responses in order and each visit pushes the response's
  arrays, when present, at the end.
\<close>

definition merge_step :: "monitor list \<times> trafficInfo list \<Rightarrow> response \<Rightarrow> monitor list \<times> trafficInfo list" where
  "merge_step merged response =
     (let ms = (case data response of
                  None \<Rightarrow> fst merged
                | Some d \<Rightarrow> (case monitors d of
                               None \<Rightarrow> fst merged
                             | Some xs \<Rightarrow> fst merged @ xs));
          ts = (case data response of
                  None \<Rightarrow> snd merged
                | Some d \<Rightarrow> (case trafficInfos d of
                               None \<Rightarrow> snd merged
                             | Some xs \<Rightarrow> snd merged @ xs))
      in (ms, ts))"

definition mergeAPIResponses :: "response list \<Rightarrow> response" where
  "mergeAPIResponses responses =
     (let merged = fold (\<lambda>response merged. merge_step merged response) responses ([], [])
      in \<lparr>data = Some \<lparr>monitors = Some (fst merged), trafficInfos = Some (snd merged)\<rparr>\<rparr>)"

subsection \<open>Rendering\<close>

text \<open>The object pushed for every departure of every line.\<close>

record departure_record =
  line :: string
  towards :: string
  lineType :: string
  barrierFree :: bool
  departureTime :: departureTime
  countdown :: int

text \<open>
  A table row as \<^verbatim>\<open>createDepartureRow\<close> builds it: the badge's class and text, the
  direction cell, the countdown span's class and text, and the content of the last cell.
\<close>

record tr =
  badge_class :: string
  badge_text :: string
  direction_text :: string
  countdown_class :: string
  countdown_text :: string
  barrier_cell :: string

text \<open>A child of the table body: markup assigned through \<^verbatim>\<open>innerHTML\<close>, or an appended row.\<close>

datatype node = Html string | Tr tr

fun is_infix :: "string \<Rightarrow> string \<Rightarrow> bool" where
  "is_infix p [] = (p = [])"
| "is_infix p (c # cs) = (take (length p) (c # cs) = p \<or> is_infix p cs)"

definition getLineClass :: "string \<Rightarrow> string" where
  "getLineClass lt =
     (if is_infix ''Bus'' lt then ''line-bus''
      else if is_infix ''Tram'' lt then ''line-tram''
      else if is_infix ''U'' lt then ''line-u''
      else if is_infix ''S'' lt then ''line-s''
      else ''line-bus'')"

definition createDepartureRow :: "(int \<Rightarrow> string) \<Rightarrow> departure_record \<Rightarrow> tr" where
  \<open>createDepartureRow beyond dep =
     \<lparr>badge_class = ''line-badge '' @ getLineClass (lineType dep),
      badge_text = line dep,
      direction_text = departure_record.towards dep,
      countdown_class =
        (if departure_record.countdown dep = 0 then ''countdown countdown-now'' else ''countdown''),
      countdown_text =
        (if departure_record.countdown dep = 0 then ''JETZT''
         else if departure_record.countdown dep = 1 then ''1 min''
         else number_toString beyond (departure_record.countdown dep) @ '' min''),
      barrier_cell =
        (if departure_record.barrierFree dep
         then ''<span class="barrier-free">'' @ wheelchair @ '' Ja</span>''
         else ''Nein'')\<rparr>\<close>

text \<open>
  A \<^verbatim>\<open>forEach\<close> whose body pushes records onto \<^verbatim>\<open>departures\<close> and may throw: the first
  exception ends the loop and leaves the function; otherwise the pushes follow each other
  in order.
\<close>

fun collect :: "('a \<Rightarrow> exception + 'b list) \<Rightarrow> 'a list \<Rightarrow> exception + 'b list" where
  "collect f [] = Inr []"
| "collect f (x # xs) =
     (case f x of
        Inl e \<Rightarrow> Inl e
      | Inr ys \<Rightarrow> (case collect f xs of Inl e \<Rightarrow> Inl e | Inr zs \<Rightarrow> Inr (ys @ zs)))"

text \<open>
  The three nested \<^verbatim>\<open>forEach\<close> loops that fill \<^verbatim>\<open>departures\<close>. Reading
  \<^verbatim>\<open>departure.departureTime.countdown\<close> throws a \<^verbatim>\<open>TypeError\<close> when \<^verbatim>\<open>departureTime\<close> is absent.
\<close>

definition push_departure :: "line \<Rightarrow> departure \<Rightarrow> exception + departure_record list" where
  "push_departure l d =
     (case departure.departureTime d of
        None \<Rightarrow> Inl TypeError
      | Some t \<Rightarrow>
          Inr [\<lparr>line = name l,
                towards = line.towards l,
                lineType = (case type l of
                              None \<Rightarrow> ''ptBusCity''
                            | Some s \<Rightarrow> if s = [] then ''ptBusCity'' else s),
                barrierFree = (case line.barrierFree l of None \<Rightarrow> False | Some b \<Rightarrow> b),
                departureTime = t,
                countdown = departureTime.countdown t\<rparr>])"

definition line_departures :: "line \<Rightarrow> exception + departure_record list" where
  "line_departures l =
     (case departures l of
        None \<Rightarrow> Inr []
      | Some ds \<Rightarrow>
          (case departure ds of
             None \<Rightarrow> Inr []
           | Some xs \<Rightarrow> collect (push_departure l) xs))"

definition monitor_departures :: "monitor \<Rightarrow> exception + departure_record list" where
  "monitor_departures m =
     (case lines m of
        None \<Rightarrow> Inr []
      | Some ls \<Rightarrow> if length ls > 0 then collect line_departures ls else Inr [])"

definition flatten :: "monitor list \<Rightarrow> exception + departure_record list" where
  "flatten ms = collect monitor_departures ms"

text \<open>
  \<^verbatim>\<open>Array.prototype.sort\<close> with a comparator: a stable sort, an element staying before
  another whenever the comparator does not return a positive number.
\<close>

fun insert_by :: "('a \<Rightarrow> 'a \<Rightarrow> int) \<Rightarrow> 'a \<Rightarrow> 'a list \<Rightarrow> 'a list" where
  "insert_by cmp x [] = [x]"
| "insert_by cmp x (y # ys) = (if cmp x y \<le> 0 then x # y # ys else y # insert_by cmp x ys)"

definition sort_by :: "('a \<Rightarrow> 'a \<Rightarrow> int) \<Rightarrow> 'a list \<Rightarrow> 'a list" where
  "sort_by cmp xs = foldr (insert_by cmp) xs []"

definition by_countdown :: "departure_record \<Rightarrow> departure_record \<Rightarrow> int" where
  "by_countdown a b = departure_record.countdown a - departure_record.countdown b"

text \<open>
  The table body \<^verbatim>\<open>displayDepartures\<close> leaves behind, or the exception that leaves it.
\<close>

definition displayDepartures :: "(int \<Rightarrow> string) \<Rightarrow> response \<Rightarrow> exception + node list" where
  \<open>displayDepartures beyond r =
     (case data r of
        None \<Rightarrow> Inr [Html (''<tr><td colspan="4" class="loading">Keine Abfahrten gefunden f''
                             @ uuml @ ''r diese Station.</td></tr>'')]
      | Some d \<Rightarrow>
          (case monitors d of
             None \<Rightarrow> Inr [Html (''<tr><td colspan="4" class="loading">Keine Abfahrten gefunden f''
                                  @ uuml @ ''r diese Station.</td></tr>'')]
           | Some ms \<Rightarrow>
               if length ms = 0
               then Inr [Html (''<tr><td colspan="4" class="loading">Keine Abfahrten gefunden f''
                               @ uuml @ ''r diese Station.</td></tr>'')]
               else
                 (case flatten ms of
                    Inl e \<Rightarrow> Inl e
                  | Inr pushed \<Rightarrow>
                      (let deps = sort_by by_countdown pushed;
                           tbody = map (\<lambda>dep. Tr (createDepartureRow beyond dep))
                                     (take MAX_DEPARTURES deps)
                       in if length deps = 0
                          then Inr [Html (''<tr><td colspan="4" class="loading">Keine Abfahrten in den n''
                                          @ auml @ ''chsten Minuten.</td></tr>'')]
                          else Inr tbody))))\<close>

subsection \<open>displayTrafficInfo, showError, showFallbackData\<close>

definition spaces :: "nat \<Rightarrow> string" where
  "spaces n = replicate n (CHR '' '')"

text \<open>\<^verbatim>\<open>a || b\<close> on strings that may be absent: the empty string is falsy.\<close>

definition or_else :: "string option \<Rightarrow> string \<Rightarrow> string" where
  "or_else a b = (case a of None \<Rightarrow> b | Some s \<Rightarrow> if s = [] then b else s)"

text \<open>The markup of one \<^verbatim>\<open>div.traffic-info\<close>.\<close>

definition traffic_div :: "trafficInfo \<Rightarrow> string" where
  "traffic_div info =
     nl @ spaces 20 @ ''<h3>'' @ warning_sign @ '' '' @ or_else (title info) ''Verkehrsinformation''
        @ ''</h3>''
     @ nl @ spaces 20 @ ''<p>''
        @ or_else (description info) (or_else (subtitle info) (''Keine Details verf'' @ uuml @ ''gbar''))
        @ ''</p>''
     @ nl @ spaces 16"

definition displayTrafficInfo :: "response \<Rightarrow> string list" where
  "displayTrafficInfo r =
     (case data r of
        None \<Rightarrow> []
      | Some d \<Rightarrow> (case trafficInfos d of
                     None \<Rightarrow> []
                   | Some ts \<Rightarrow> if length ts > 0 then map traffic_div ts else []))"

definition showError :: "string \<Rightarrow> string" where
  \<open>showError message = ''<div class="error">'' @ message @ ''</div>''\<close>

definition demo_row :: "string \<Rightarrow> string \<Rightarrow> string \<Rightarrow> string \<Rightarrow> string \<Rightarrow> string" where
  \<open>demo_row cls label dest mins last_cell =
     spaces 12 @ ''<tr>'' @ nl
     @ spaces 16 @ ''<td><span class="line-badge '' @ cls @ ''">'' @ label @ ''</span></td>'' @ nl
     @ spaces 16 @ ''<td>'' @ dest @ ''</td>'' @ nl
     @ spaces 16 @ ''<td><span class="countdown">'' @ mins @ ''</span></td>'' @ nl
     @ spaces 16 @ ''<td>'' @ last_cell @ ''</td>'' @ nl
     @ spaces 12 @ ''</tr>'' @ nl\<close>

definition showFallbackData :: "node list" where
  \<open>showFallbackData =
     [Html (nl
        @ demo_row ''line-u'' ''U1'' ''Leopoldau'' ''2 min''
            (''<span class="barrier-free">'' @ wheelchair @ '' Ja</span>'')
        @ demo_row ''line-u'' ''U3'' ''Ottakring'' ''5 min''
            (''<span class="barrier-free">'' @ wheelchair @ '' Ja</span>'')
        @ demo_row ''line-tram'' ''2'' ''Dornbach'' ''8 min'' ''Nein''
        @ spaces 8)]\<close>

subsection \<open>loadDepartures\<close>

text \<open>
  What one \<^verbatim>\<open>fetch\<close> can end in: a rejected promise, or a response with its \<^verbatim>\<open>ok\<close> flag
  and a body that is not JSON, is the JSON value \<^verbatim>\<open>null\<close>, or is a JSON value read as a
  station response.
\<close>

datatype body = NotJson | JsonNull | Json response

datatype fetch_outcome = Rejected | Response bool body

text \<open>The per-stop promise chain: every failure is caught and replaced with \<^verbatim>\<open>null\<close>.\<close>

fun fetchStop :: "fetch_outcome \<Rightarrow> response option" where
  "fetchStop Rejected = None"
| "fetchStop (Response ok b) =
     (if \<not> ok then None
      else (case b of NotJson \<Rightarrow> None | JsonNull \<Rightarrow> None | Json r \<Rightarrow> Some r))"

record dom =
  departures_body :: "node list"
  error_container :: string
  traffic_info_container :: "string list"
  last_update :: string

definition showLoading :: "dom \<Rightarrow> dom" where
  \<open>showLoading d = d\<lparr>departures_body := [Html ''<tr><td colspan="4" class="loading">Lade Daten...</td></tr>'']\<rparr>\<close>

definition clearError :: "dom \<Rightarrow> dom" where
  "clearError d = d\<lparr>error_container := []\<rparr>"

text \<open>
  One poll cycle, from the outcomes of the fetches (one per configured stop, in order) and
  the clock's \<^verbatim>\<open>toLocaleTimeString\<close> to the page once the promise chain has settled. The
  \<^verbatim>\<open>catch\<close> at the end of the chain takes the \<^verbatim>\<open>Error\<close> thrown when no result is left and
  every exception thrown further down in the same \<^verbatim>\<open>then\<close>; with the payload as typed here
  that is the one of \<^verbatim>\<open>displayDepartures\<close>.
\<close>

definition catch_handler :: "dom \<Rightarrow> exception \<Rightarrow> dom" where
  "catch_handler d e =
     d\<lparr>error_container :=
          showError (''Fehler beim Laden der Abfahrtsdaten. Bitte versuchen Sie es sp''
                     @ auml @ ''ter erneut.''),
       departures_body := showFallbackData\<rparr>"

definition loadDepartures :: "(int \<Rightarrow> string) \<Rightarrow> string \<Rightarrow> fetch_outcome list \<Rightarrow> dom \<Rightarrow> dom" where
  "loadDepartures beyond timeString outcomes d0 =
     (let d = clearError (showLoading d0);
          results = map fetchStop outcomes;
          validResults = map the (filter (\<lambda>data. data \<noteq> None) results)
      in (case validResults of
            [] \<Rightarrow> catch_handler d (Error ''All API requests failed'')
          | first # _ \<Rightarrow>
              (case displayDepartures beyond (mergeAPIResponses validResults) of
                 Inl e \<Rightarrow> catch_handler d e
               | Inr tbody \<Rightarrow>
                   d\<lparr>departures_body := tbody,
                     traffic_info_container := displayTrafficInfo first,
                     last_update := ''Letzte Aktualisierung: '' @ timeString\<rparr>)))"


section \<open>Weather poller (src/js/monitor.js)\<close>

text \<open>The pictographs of the lookup table, as UTF-8 bytes.\<close>

definition sun :: string where
  "sun = [CHR 0xE2, CHR 0x98, CHR 0x80, CHR 0xEF, CHR 0xB8, CHR 0x8F]"

definition sun_small_cloud :: string where
  "sun_small_cloud = [CHR 0xF0, CHR 0x9F, CHR 0x8C, CHR 0xA4, CHR 0xEF, CHR 0xB8, CHR 0x8F]"

definition sun_behind_cloud :: string where
  "sun_behind_cloud = [CHR 0xE2, CHR 0x9B, CHR 0x85]"

definition cloud :: string where
  "cloud = [CHR 0xE2, CHR 0x98, CHR 0x81, CHR 0xEF, CHR 0xB8, CHR 0x8F]"

definition fog :: string where
  "fog = [CHR 0xF0, CHR 0x9F, CHR 0x8C, CHR 0xAB, CHR 0xEF, CHR 0xB8, CHR 0x8F]"

definition sun_rain_cloud :: string where
  "sun_rain_cloud = [CHR 0xF0, CHR 0x9F, CHR 0x8C, CHR 0xA6, CHR 0xEF, CHR 0xB8, CHR 0x8F]"

definition rain_cloud :: string where
  "rain_cloud = [CHR 0xF0, CHR 0x9F, CHR 0x8C, CHR 0xA7, CHR 0xEF, CHR 0xB8, CHR 0x8F]"

definition snow_cloud :: string where
  "snow_cloud = [CHR 0xF0, CHR 0x9F, CHR 0x8C, CHR 0xA8, CHR 0xEF, CHR 0xB8, CHR 0x8F]"

definition thunder_cloud :: string where
  "thunder_cloud = [CHR 0xE2, CHR 0x9B, CHR 0x88, CHR 0xEF, CHR 0xB8, CHR 0x8F]"

definition thermometer :: string where
  "thermometer = [CHR 0xF0, CHR 0x9F, CHR 0x8C, CHR 0xA1, CHR 0xEF, CHR 0xB8, CHR 0x8F]"

record weatherInfo =
  icon :: string
  description :: string

text \<open>
  A JavaScript number: a finite value, or one of the three that are not. The code arrives
  as \<^verbatim>\<open>current.weather_code\<close> of the forecast.
\<close>

datatype number = Finite rat | NaN | Infinity | NegInfinity

text \<open>
  \<^verbatim>\<open>weatherMap\<close>: an object literal whose keys are the decimal numerals of the WMO codes. A
  number used as a property key is first printed; a finite number prints as one of these
  numerals exactly when it equals the code, and \<^verbatim>\<open>NaN\<close> and the infinities print as words.
\<close>

definition weatherMap :: "(rat \<times> weatherInfo) list" where
  "weatherMap =
     [
      (0, \<lparr>icon = sun, description = ''Klar''\<rparr>),
      (1, \<lparr>icon = sun_small_cloud, description = Uuml @ ''berwiegend klar''\<rparr>),
      (2, \<lparr>icon = sun_behind_cloud, description = ''Teilweise bew'' @ ouml @ ''lkt''\<rparr>),
      (3, \<lparr>icon = cloud, description = ''Bew'' @ ouml @ ''lkt''\<rparr>),
      (45, \<lparr>icon = fog, description = ''Neblig''\<rparr>),
      (48, \<lparr>icon = fog, description = ''Neblig''\<rparr>),
      (51, \<lparr>icon = sun_rain_cloud, description = ''Leichter Nieselregen''\<rparr>),
      (53, \<lparr>icon = sun_rain_cloud, description = ''Nieselregen''\<rparr>),
      (55, \<lparr>icon = rain_cloud, description = ''Starker Nieselregen''\<rparr>),
      (61, \<lparr>icon = rain_cloud, description = ''Leichter Regen''\<rparr>),
      (63, \<lparr>icon = rain_cloud, description = ''Regen''\<rparr>),
      (65, \<lparr>icon = rain_cloud, description = ''Starker Regen''\<rparr>),
      (71, \<lparr>icon = snow_cloud, description = ''Leichter Schneefall''\<rparr>),
      (73, \<lparr>icon = snow_cloud, description = ''Schneefall''\<rparr>),
      (75, \<lparr>icon = snow_cloud, description = ''Starker Schneefall''\<rparr>),
      (77, \<lparr>icon = snow_cloud, description = ''Schneegriesel''\<rparr>),
      (80, \<lparr>icon = sun_rain_cloud, description = ''Leichte Schauer''\<rparr>),
      (81, \<lparr>icon = rain_cloud, description = ''Schauer''\<rparr>),
      (82, \<lparr>icon = thunder_cloud, description = ''Starke Schauer''\<rparr>),
      (85, \<lparr>icon = snow_cloud, description = ''Leichte Schneeschauer''\<rparr>),
      (86, \<lparr>icon = snow_cloud, description = ''Schneeschauer''\<rparr>),
      (95, \<lparr>icon = thunder_cloud, description = ''Gewitter''\<rparr>),
      (96, \<lparr>icon = thunder_cloud, description = ''Gewitter mit Hagel''\<rparr>),
      (99, \<lparr>icon = thunder_cloud, description = ''Starkes Gewitter''\<rparr>)
     ]"

definition weatherMap_lookup :: "number \<Rightarrow> weatherInfo option" where
  "weatherMap_lookup code = (case code of Finite q \<Rightarrow> map_of weatherMap q | _ \<Rightarrow> None)"

text \<open>\<^verbatim>\<open>weatherMap[code] || {...}\<close>: every entry of the table is an object, hence truthy.\<close>

definition getWeatherInfo :: "number \<Rightarrow> weatherInfo" where
  "getWeatherInfo code =
     (case weatherMap_lookup code of
        Some info \<Rightarrow> info
      | None \<Rightarrow> \<lparr>icon = thermometer, description = ''Unbekannt''\<rparr>)"


section \<open>Metering poller (src/js/monitor.js)\<close>

text \<open>A JSON value, as \<^verbatim>\<open>JSON.parse\<close> returns it; \<open>JNull\<close> is also JavaScript's \<^verbatim>\<open>null\<close>.\<close>

datatype json =
    JNull
  | JBool bool
  | JNumber rat
  | JString string
  | JArray "json list"
  | JObject "(string \<times> json) list"

text \<open>What \<^verbatim>\<open>if (x)\<close> and \<^verbatim>\<open>!x\<close> test.\<close>

fun truthy :: "json \<Rightarrow> bool" where
  "truthy JNull = False"
| "truthy (JBool b) = b"
| "truthy (JNumber q) = (q \<noteq> 0)"
| "truthy (JString s) = (s \<noteq> [])"
| "truthy (JArray xs) = True"
| "truthy (JObject fs) = True"

text \<open>
  Local storage is a map from keys to strings. \<^verbatim>\<open>JSON.parse\<close> is the platform's; it is a
  parameter \<open>parse\<close> of the model, \<open>None\<close> standing for the \<^verbatim>\<open>SyntaxError\<close> it throws on a
  text that is not JSON.
\<close>

definition getSmartMeterCredentials ::
    "(string \<Rightarrow> json option) \<Rightarrow> (string \<rightharpoonup> string) \<Rightarrow> json" where
  "getSmartMeterCredentials parse localStorage =
     (case localStorage ''smartmeter_config'' of
        None \<Rightarrow> JNull
      | Some stored \<Rightarrow>
          if stored \<noteq> []
          then (case parse stored of Some credentials \<Rightarrow> credentials | None \<Rightarrow> JNull)
          else JNull)"

record location =
  protocol :: string
  hostname :: string

definition isBackendAvailable :: "location \<Rightarrow> bool" where
  "isBackendAvailable loc =
     (hostname loc \<noteq> [] \<and> hostname loc \<noteq> ''localhost'' \<and>
      \<not> (take (length ''127.0.0.1'') (hostname loc) = ''127.0.0.1''))"

record smartmeter_widget =
  smartmeter_value :: string
  smartmeter_period :: string

text \<open>
  What \<^verbatim>\<open>loadSmartMeterData\<close> starts besides writing the widget: nothing, the timer of the
  demo sample, or \<^verbatim>\<open>fetchSmartMeterAPI\<close> (the request to the relay) with the credentials.
\<close>

datatype started = Nothing | DemoTimer | FetchSmartMeterAPI json

definition loadSmartMeterData ::
    "(string \<Rightarrow> json option) \<Rightarrow> location \<Rightarrow> (string \<rightharpoonup> string) \<Rightarrow> smartmeter_widget
       \<Rightarrow> smartmeter_widget \<times> started" where
  "loadSmartMeterData parse loc localStorage w =
     (let credentials = getSmartMeterCredentials parse localStorage
      in if \<not> truthy credentials
         then (w\<lparr>smartmeter_value := ''-- kWh'', smartmeter_period := ''Nicht konfiguriert''\<rparr>,
               Nothing)
         else
           (let w' = w\<lparr>smartmeter_period := ''Lade...''\<rparr>
            in if protocol loc = ''file:'' \<or> \<not> isBackendAvailable loc
               then (w', DemoTimer)
               else (w', FetchSmartMeterAPI credentials)))"


section \<open>Credential relay (src/inc/smartmeter-proxy.php)\<close>

subsection \<open>PHP values\<close>

text \<open>
  A PHP value as \<^verbatim>\<open>json_decode($response, true)\<close> returns it and as \<^verbatim>\<open>json_encode\<close> takes it. An
  array is the ordered list of its entries; a JSON object and a JSON array both decode to
  one. A float is a double, of the type \<open>number\<close> above.
\<close>

datatype key = IntKey int | StrKey string

datatype pval =
    PNull
  | PBool bool
  | PInt int
  | PFloat number
  | PString string
  | PArray "(key \<times> pval) list"

text \<open>
  \<^verbatim>\<open>$v['k'] ?? ...\<close> and \<^verbatim>\<open>isset($v['k'])\<close> with a string key that is no numeral: the entry of
  an array when it is there and not null; never set on a value that is not an array.
\<close>

definition isset_at :: "pval \<Rightarrow> string \<Rightarrow> pval option" where
  "isset_at v k =
     (case v of
        PArray entries \<Rightarrow>
          (case map_of entries (StrKey k) of
             None \<Rightarrow> None
           | Some PNull \<Rightarrow> None
           | Some x \<Rightarrow> Some x)
      | _ \<Rightarrow> None)"

text \<open>
  \<^verbatim>\<open>empty($s)\<close> and \<^verbatim>\<open>if ($s)\<close> on a string: the empty string and the string \<^verbatim>\<open>0\<close> are empty
  (falsy).
\<close>

definition empty_string :: "string \<Rightarrow> bool" where
  "empty_string s = (s = [] \<or> s = ''0'')"

subsection \<open>Encoding to JSON\<close>

text \<open>
  \<^verbatim>\<open>json_encode\<close> without flags returns \<^verbatim>\<open>false\<close>, not a text, for a value that holds a string
  (or a string key) which is not well-formed UTF-8, a float that is infinite or not a
  number, or arrays nested more than 512 deep. The bytes of well-formed UTF-8 (RFC 3629):
\<close>

definition continuation :: "char \<Rightarrow> bool" where
  "continuation c = (128 \<le> (of_char c :: nat) \<and> (of_char c :: nat) \<le> 191)"

text \<open>
  The range of the byte that follows a lead byte: narrowed after \<open>0xE0\<close> and \<open>0xF0\<close> (no
  overlong form), after \<open>0xED\<close> (no surrogate) and after \<open>0xF4\<close> (nothing above U+10FFFF).
\<close>

definition second_byte :: "nat \<Rightarrow> char \<Rightarrow> bool" where
  "second_byte lead c =
     ((if lead = 224 then 160 else if lead = 240 then 144 else 128) \<le> (of_char c :: nat)
      \<and> (of_char c :: nat) \<le> (if lead = 237 then 159 else if lead = 244 then 143 else 191))"

text \<open>
  A string is well-formed when it is a sequence of characters of one byte below \<open>0x80\<close>, or
  of a lead byte \<open>0xC2..0xDF\<close>, \<open>0xE0..0xEF\<close> or \<open>0xF0..0xF4\<close> with one, two or three bytes
  after it.
\<close>

fun valid_utf8 :: "string \<Rightarrow> bool" where
  "valid_utf8 [] = True"
| "valid_utf8 (c # cs) =
     (if (of_char c :: nat) < 128 then valid_utf8 cs
      else if 194 \<le> (of_char c :: nat) \<and> (of_char c :: nat) \<le> 223 then
        (case cs of
           c1 # r \<Rightarrow> second_byte (of_char c) c1 \<and> valid_utf8 r
         | _ \<Rightarrow> False)
      else if 224 \<le> (of_char c :: nat) \<and> (of_char c :: nat) \<le> 239 then
        (case cs of
           c1 # c2 # r \<Rightarrow> second_byte (of_char c) c1 \<and> continuation c2 \<and> valid_utf8 r
         | _ \<Rightarrow> False)
      else if 240 \<le> (of_char c :: nat) \<and> (of_char c :: nat) \<le> 244 then
        (case cs of
           c1 # c2 # c3 # r \<Rightarrow>
             second_byte (of_char c) c1 \<and> continuation c2 \<and> continuation c3 \<and> valid_utf8 r
         | _ \<Rightarrow> False)
      else False)"

fun is_finite :: "number \<Rightarrow> bool" where
  "is_finite (Finite q) = True"
| "is_finite NaN = False"
| "is_finite Infinity = False"
| "is_finite NegInfinity = False"

fun key_encodable :: "key \<Rightarrow> bool" where
  "key_encodable (IntKey i) = True"
| "key_encodable (StrKey s) = valid_utf8 s"

text \<open>Whether a value can be encoded with \<open>n\<close> more levels of arrays allowed.\<close>

fun encodable :: "nat \<Rightarrow> pval \<Rightarrow> bool" where
  "encodable n PNull = True"
| "encodable n (PBool b) = True"
| "encodable n (PInt i) = True"
| "encodable n (PFloat x) = is_finite x"
| "encodable n (PString s) = valid_utf8 s"
| "encodable n (PArray entries) =
     (0 < n \<and> list_all (\<lambda>entry. key_encodable (fst entry) \<and> encodable (n - 1) (snd entry)) entries)"

definition json_encodable :: "pval \<Rightarrow> bool" where
  "json_encodable v = encodable 512 v"

subsection \<open>Calendar dates\<close>

record date =
  year :: int
  month :: int
  day :: int

definition is_leap :: "int \<Rightarrow> bool" where
  "is_leap y = ((y mod 4 = 0 \<and> y mod 100 \<noteq> 0) \<or> y mod 400 = 0)"

definition days_in_month :: "int \<Rightarrow> int \<Rightarrow> int" where
  "days_in_month y m =
     (if m = 2 then (if is_leap y then 29 else 28)
      else if m = 4 \<or> m = 6 \<or> m = 9 \<or> m = 11 then 30
      else 31)"

text \<open>\<^verbatim>\<open>modify('-1 day')\<close>: the calendar day before.\<close>

definition prev_day :: "date \<Rightarrow> date" where
  "prev_day d =
     (if 1 < day d then d\<lparr>day := day d - 1\<rparr>
      else if 1 < month d
        then \<lparr>year = year d, month = month d - 1, day = days_in_month (year d) (month d - 1)\<rparr>
        else \<lparr>year = year d - 1, month = 12, day = 31\<rparr>)"

text \<open>\<^verbatim>\<open>modify('-n days')\<close>: \<open>n\<close> calendar days back.\<close>

primrec sub_days :: "nat \<Rightarrow> date \<Rightarrow> date" where
  "sub_days 0 d = d"
| "sub_days (Suc n) d = sub_days n (prev_day d)"

text \<open>
  \<^verbatim>\<open>modify('-1 year')\<close>: the year field goes down by one; the 29th of February, which the
  year before does not have, runs over into the 1st of March.
\<close>

definition sub_year :: "date \<Rightarrow> date" where
  "sub_year d =
     (if month d = 2 \<and> day d = 29 \<and> \<not> is_leap (year d - 1)
      then \<lparr>year = year d - 1, month = 3, day = 1\<rparr>
      else d\<lparr>year := year d - 1\<rparr>)"

text \<open>\<^verbatim>\<open>format('Y-m-d')\<close>: the year on at least four digits, month and day on two.\<close>

definition pad :: "nat \<Rightarrow> string \<Rightarrow> string" where
  "pad n s = replicate (n - length s) (CHR ''0'') @ s"

definition format_date :: "date \<Rightarrow> string" where
  "format_date d =
     (if year d < 0 then CHR ''-'' # pad 4 (string_of_nat (nat (- year d)))
      else pad 4 (string_of_nat (nat (year d))))
     @ ''-'' @ pad 2 (string_of_nat (nat (month d)))
     @ ''-'' @ pad 2 (string_of_nat (nat (day d)))"

subsection \<open>Requests, replies, and what the relay is given\<close>

text \<open>
  A request: its method and the form fields of \<^verbatim>\<open>$_POST\<close> and \<^verbatim>\<open>$_GET\<close>, each a string.
\<close>

record request =
  REQUEST_METHOD :: string
  POST :: "string \<rightharpoonup> string"
  GET :: "string \<rightharpoonup> string"

text \<open>
  What the script prints: nothing, or the JSON text of a value. The reply is the status
  code together with it.
\<close>

datatype printed = NoOutput | JsonEncode pval

text \<open>
  \<^verbatim>\<open>echo json_encode($v)\<close>: the JSON text of the value or, where \<^verbatim>\<open>json_encode\<close> returns
  \<^verbatim>\<open>false\<close>, nothing.
\<close>

definition echo_json_encode :: "pval \<Rightarrow> printed" where
  "echo_json_encode v = (if json_encodable v then JsonEncode v else NoOutput)"

record reply =
  http_response_code :: int
  echo :: printed

text \<open>The request sent upstream, and what \<^verbatim>\<open>curl_exec\<close>, \<^verbatim>\<open>curl_getinfo\<close> and \<^verbatim>\<open>curl_error\<close> give.\<close>

record upstream_request =
  CURLOPT_URL :: string
  CURLOPT_HTTPHEADER :: "string list"

record curl_result =
  response :: string
  httpCode :: int
  curlError :: string

text \<open>
  The surroundings of one run of the script: the clock (\<^verbatim>\<open>new DateTime()\<close>), the upstream
  service behind curl, PHP's \<^verbatim>\<open>json_decode\<close> (\<open>None\<close> when \<^verbatim>\<open>json_last_error()\<close> reports an error),
  and \<^verbatim>\<open>sys_get_temp_dir()\<close>; and PHP's arithmetic on doubles, which the model takes as it is:
  the sum of two floats, the float of an integer, \<^verbatim>\<open>round($x, 2)\<close> of a float, and the float
  \<^verbatim>\<open>floatval\<close> reads out of a string (the leading numeral, 0 without one).
\<close>

record env =
  today :: date
  curl_exec :: "upstream_request \<Rightarrow> curl_result"
  json_decode :: "string \<Rightarrow> pval option"
  sys_get_temp_dir :: string
  float_add :: "number \<Rightarrow> number \<Rightarrow> number"
  float_of_int :: "int \<Rightarrow> number"
  float_round :: "number \<Rightarrow> number"
  strtod :: "string \<Rightarrow> number"

subsection \<open>Float arithmetic\<close>

definition floatval :: "env \<Rightarrow> pval \<Rightarrow> number" where
  "floatval e v =
     (case v of
        PNull \<Rightarrow> Finite 0
      | PBool b \<Rightarrow> Finite (if b then 1 else 0)
      | PInt i \<Rightarrow> float_of_int e i
      | PFloat x \<Rightarrow> x
      | PString s \<Rightarrow> strtod e s
      | PArray entries \<Rightarrow> Finite (if entries = [] then 0 else 1))"

text \<open>
  \<^verbatim>\<open>$totalConsumption\<close> is the integer 0 until the first reading is added and a float from
  then on: adding a float to an integer first makes the integer a float.
\<close>

datatype total = IntTotal int | FloatTotal number

fun plus_float :: "env \<Rightarrow> total \<Rightarrow> number \<Rightarrow> total" where
  "plus_float e (IntTotal i) x = FloatTotal (float_add e (float_of_int e i) x)"
| "plus_float e (FloatTotal a) x = FloatTotal (float_add e a x)"

text \<open>\<^verbatim>\<open>round($totalConsumption, 2)\<close>: of an integer, the integer as a float.\<close>

fun round2 :: "env \<Rightarrow> total \<Rightarrow> number" where
  "round2 e (IntTotal i) = float_of_int e i"
| "round2 e (FloatTotal x) = float_round e x"


text \<open>The state a run can change: the session's variables and id, and the files on disk.\<close>

record server =
  SESSION :: "string \<rightharpoonup> pval"
  session_id :: string
  files :: "string set"

subsection \<open>success, error\<close>

definition success :: "pval \<Rightarrow> reply" where
  "success d =
     \<lparr>http_response_code = 200,
      echo = echo_json_encode (PArray [(StrKey ''success'', PBool True), (StrKey ''data'', d)])\<rparr>"

definition error :: "string \<Rightarrow> int \<Rightarrow> reply" where
  "error message code =
     \<lparr>http_response_code = code,
      echo = echo_json_encode (PArray [(StrKey ''success'', PBool False),
                                       (StrKey ''error'', PString message)])\<rparr>"

text \<open>\<^verbatim>\<open>$a[k1] ?? $b[k2] ?? dflt\<close> on form fields.\<close>

definition coalesce :: "string option \<Rightarrow> string option \<Rightarrow> string \<Rightarrow> string" where
  "coalesce a b dflt = (case a of Some s \<Rightarrow> s | None \<Rightarrow> (case b of Some s \<Rightarrow> s | None \<Rightarrow> dflt))"

subsection \<open>handleLogin, handleLogout\<close>

definition handleLogin :: "request \<Rightarrow> server \<Rightarrow> reply \<times> server" where
  "handleLogin req st =
     (let apiKey = coalesce (POST req ''apiKey'') (POST req ''password'') []
      in if empty_string apiKey
         then (error ''API Key required. Get one from https://api-portal.wienerstadtwerke.at'' 400,
               st)
         else (success (PArray [(StrKey ''message'', PString ''API Key configured'')]),
               st\<lparr>SESSION := (SESSION st)(''wstw_api_key'' \<mapsto> PString apiKey,
                                            ''wstw_logged_in'' \<mapsto> PBool True)\<rparr>))"

definition handleLogout :: "env \<Rightarrow> server \<Rightarrow> reply \<times> server" where
  "handleLogout e st =
     (let cookieFile = sys_get_temp_dir e @ ''/we_cookies_'' @ session_id st @ ''.txt'';
          st1 = (if cookieFile \<in> files st then st\<lparr>files := files st - {cookieFile}\<rparr> else st)
      in (success (PArray [(StrKey ''message'', PString ''Logged out successfully'')]),
          st1\<lparr>SESSION := Map.empty\<rparr>))"

subsection \<open>getConsumption\<close>

definition API_CONSUMPTION_URL :: string where
  "API_CONSUMPTION_URL =
     ''https://api.wstw.at/gateway/WN_SMART_METER_API/1.0'' @ ''/zaehlpunkte/messwerte''"

text \<open>The \<^verbatim>\<open>switch\<close> on the period: start and end of the date range.\<close>

definition date_range :: "string \<Rightarrow> date \<Rightarrow> date \<times> date" where
  "date_range period endDate =
     (let startDate =
        (if period = ''day'' then sub_days 1 endDate
         else if period = ''week'' then sub_days 7 endDate
         else if period = ''month'' then sub_days 30 endDate
         else if period = ''year'' then sub_year endDate
         else endDate)
      in (startDate, endDate))"

text \<open>
  \<^verbatim>\<open>http_build_query\<close> of the three parameters; none of their values has a character that
  would be escaped.
\<close>

definition http_build_query :: "(string \<times> string) list \<Rightarrow> string" where
  "http_build_query params =
     concat (map (\<lambda>(i, (k, v)). (if i = (0::nat) then [] else ''&'') @ k @ ''='' @ v)
               (enumerate 0 params))"

definition consumption_request :: "string \<Rightarrow> string \<Rightarrow> string \<Rightarrow> date \<Rightarrow> upstream_request" where
  "consumption_request apiKey meterId period now =
     (let (startDate, endDate) = date_range period now;
          params = [(''dateFrom'', format_date startDate),
                    (''dateTo'', format_date endDate),
                    (''granularity'', ''DAY'')];
          url = API_CONSUMPTION_URL @ ''/'' @ meterId @ ''?'' @ http_build_query params
      in \<lparr>CURLOPT_URL = url,
          CURLOPT_HTTPHEADER = [''Accept: application/json'', ''X-API-Key: '' @ apiKey]\<rparr>)"

text \<open>One of the three \<^verbatim>\<open>foreach\<close> loops: the readings' amounts added to the total.\<close>

definition add_readings :: "env \<Rightarrow> string \<Rightarrow> string \<Rightarrow> (key \<times> pval) list \<Rightarrow> total" where
  "add_readings e first second entries =
     fold (\<lambda>(k, reading) totalConsumption.
             plus_float e totalConsumption
               (floatval e (case isset_at reading first of
                              Some v \<Rightarrow> v
                            | None \<Rightarrow> (case isset_at reading second of
                                          Some v \<Rightarrow> v
                                        | None \<Rightarrow> PInt 0))))
          entries (IntTotal 0)"

definition total_consumption :: "env \<Rightarrow> pval \<Rightarrow> total" where
  "total_consumption e d =
     (case isset_at d ''values'' of
        Some (PArray entries) \<Rightarrow> add_readings e ''value'' ''wert'' entries
      | _ \<Rightarrow>
        (case isset_at d ''messwerte'' of
           Some (PArray entries) \<Rightarrow> add_readings e ''wert'' ''value'' entries
         | _ \<Rightarrow>
           (case isset_at d ''data'' of
              Some (PArray entries) \<Rightarrow> add_readings e ''consumption'' ''verbrauch'' entries
            | _ \<Rightarrow> IntTotal 0)))"

definition getConsumption :: "env \<Rightarrow> request \<Rightarrow> reply" where
  "getConsumption e req =
     (let apiKey = coalesce (POST req ''password'') (POST req ''apiKey'') [];
          meterId = coalesce (POST req ''meterId'') (GET req ''meterId'') [];
          period = coalesce (POST req ''period'') (GET req ''period'') ''week''
      in if empty_string apiKey then error ''API Key required'' 401
         else if empty_string meterId
           then error (''Z'' @ auml @ ''hlpunktnummer (meterId) is required'') 400
         else
           (let r = curl_exec e (consumption_request apiKey meterId period (today e))
            in if \<not> empty_string (curlError r)
               then error (''Connection error: '' @ curlError r) 500
               else if httpCode r = 200
                 then (case json_decode e (response r) of
                         None \<Rightarrow> error ''Invalid JSON response'' 500
                       | Some d \<Rightarrow>
                           success (PArray
                             [(StrKey ''weeklyConsumption'',
                                 PFloat (round2 e (total_consumption e d))),
                              (StrKey ''period'', PString ''Diese Woche''),
                              (StrKey ''unit'', PString ''kWh''),
                              (StrKey ''rawData'', d)]))
               else if httpCode r = 401 then error ''Unauthorized: Invalid API Key'' 401
               else if httpCode r = 404 then error (''Z'' @ auml @ ''hlpunkt nicht gefunden'') 404
               else error (''API error: HTTP '' @ string_of_int (httpCode r) @ '' - ''
                           @ take 200 (response r)) (httpCode r)))"

subsection \<open>handleRequest and the script\<close>

definition handleRequest :: "env \<Rightarrow> request \<Rightarrow> server \<Rightarrow> reply \<times> server" where
  "handleRequest e req st =
     (let action = coalesce (POST req ''action'') (GET req ''action'') []
      in if action = ''login'' then handleLogin req st
         else if action = ''getConsumption'' then (getConsumption e req, st)
         else if action = ''logout'' then handleLogout e st
         else (error ''Invalid action'' 400, st))"

text \<open>
  The script from top to bottom: a preflight request is answered at once, with status 200
  and no output; every other request goes to \<^verbatim>\<open>handleRequest\<close>. No operation of the model
  throws (a failing \<^verbatim>\<open>json_encode\<close> returns \<^verbatim>\<open>false\<close>), so the \<^verbatim>\<open>catch\<close> around the call has no
  branch here.
\<close>

definition relay :: "env \<Rightarrow> request \<Rightarrow> server \<Rightarrow> reply \<times> server" where
  "relay e req st =
     (if REQUEST_METHOD req = ''OPTIONS''
      then (\<lparr>http_response_code = 200, echo = NoOutput\<rparr>, st)
      else handleRequest e req st)"

section \<open>Notions used to state the properties of the departure poller\<close>

text \<open>The lists a response contributes: an absent property contributes nothing.\<close>

definition response_monitors :: "response \<Rightarrow> monitor list" where
  "response_monitors r =
     (case data r of None \<Rightarrow> [] | Some d \<Rightarrow> (case monitors d of None \<Rightarrow> [] | Some ms \<Rightarrow> ms))"

definition response_trafficInfos :: "response \<Rightarrow> trafficInfo list" where
  "response_trafficInfos r =
     (case data r of None \<Rightarrow> [] | Some d \<Rightarrow> (case trafficInfos d of None \<Rightarrow> [] | Some ts \<Rightarrow> ts))"

text \<open>
  Every departure the rendering loops visit: those of every line of every monitor, in
  order.
\<close>

definition line_payload :: "line \<Rightarrow> departure list" where
  "line_payload l =
     (case departures l of
        None \<Rightarrow> []
      | Some ds \<Rightarrow> (case departure ds of None \<Rightarrow> [] | Some xs \<Rightarrow> xs))"

definition monitor_payload :: "monitor \<Rightarrow> departure list" where
  "monitor_payload m = (case lines m of None \<Rightarrow> [] | Some ls \<Rightarrow> concat (map line_payload ls))"

definition payload_departures :: "response \<Rightarrow> departure list" where
  "payload_departures r = concat (map monitor_payload (response_monitors r))"

text \<open>A payload is complete when each of these departures has its \<^verbatim>\<open>departureTime\<close>.\<close>

definition complete_payload :: "response \<Rightarrow> bool" where
  "complete_payload r = list_all (\<lambda>d. departure.departureTime d \<noteq> None) (payload_departures r)"

text \<open>The appended rows of a table body, in order.\<close>

fun rendered_rows :: "node list \<Rightarrow> tr list" where
  "rendered_rows [] = []"
| "rendered_rows (Html h # ns) = rendered_rows ns"
| "rendered_rows (Tr t # ns) = t # rendered_rows ns"

text \<open>The station responses of the fetches that did not fail, in order.\<close>

definition successes :: "fetch_outcome list \<Rightarrow> response list" where
  "successes outcomes =
     concat (map (\<lambda>outcome. case fetchStop outcome of None \<Rightarrow> [] | Some r \<Rightarrow> [r]) outcomes)"

text \<open>The banner of a failed cycle.\<close>

definition error_banner :: string where
  \<open>error_banner =
     ''<div class="error">Fehler beim Laden der Abfahrtsdaten. Bitte versuchen Sie es sp''
     @ auml @ ''ter erneut.</div>''\<close>

text \<open>Reading a decimal numeral back.\<close>

definition nat_of_string :: "string \<Rightarrow> nat" where
  "nat_of_string s = foldl (\<lambda>acc c. 10 * acc + (of_char c - 48)) 0 s"

text \<open>
  The hardcoded demo table, as the source spells it: three rows (U1 to Leopoldau in 2
  minutes, U3 to Ottakring in 5 minutes, both barrier-free, and tram 2 to Dornbach in 8
  minutes), each line of the markup with its indentation.
\<close>

definition demo_table :: string where
  \<open>demo_table =
     concat (map (\<lambda>l. l @ [CHR 0x0A])
       [[],
        ''            <tr>'',
        ''                <td><span class="line-badge line-u">U1</span></td>'',
        ''                <td>Leopoldau</td>'',
        ''                <td><span class="countdown">2 min</span></td>'',
        ''                <td><span class="barrier-free">'' @ [CHR 0xE2, CHR 0x99, CHR 0xBF] @ '' Ja</span></td>'',
        ''            </tr>'',
        ''            <tr>'',
        ''                <td><span class="line-badge line-u">U3</span></td>'',
        ''                <td>Ottakring</td>'',
        ''                <td><span class="countdown">5 min</span></td>'',
        ''                <td><span class="barrier-free">'' @ [CHR 0xE2, CHR 0x99, CHR 0xBF] @ '' Ja</span></td>'',
        ''            </tr>'',
        ''            <tr>'',
        ''                <td><span class="line-badge line-tram">2</span></td>'',
        ''                <td>Dornbach</td>'',
        ''                <td><span class="countdown">8 min</span></td>'',
        ''                <td>Nein</td>'',
        ''            </tr>''])
     @ ''        ''\<close>

text \<open>
  Sample inputs: a printer for the numbers beyond the safe integers (right at \<open>10^21\<close>), a
  response with one line and the given countdowns, a response whose only departure has no
  \<^verbatim>\<open>departureTime\<close>, a response with a departure of countdown 3 followed by one without
  \<^verbatim>\<open>departureTime\<close>, an empty page, a record.
\<close>

definition demo_beyond :: "int \<Rightarrow> string" where
  "demo_beyond n = ''1e+21''"

definition demo_response :: "int list \<Rightarrow> response" where
  "demo_response cs =
     \<lparr>data = Some \<lparr>monitors = Some [\<lparr>lines = Some [\<lparr>name = ''13A'', line.towards = ''Hauptbahnhof'',
         type = Some ''ptBusCity'', line.barrierFree = Some True,
         departures = Some \<lparr>departure = Some
           (map (\<lambda>c. \<lparr>departure.departureTime = Some \<lparr>departureTime.countdown = c\<rparr>\<rparr>) cs)\<rparr>\<rparr>]\<rparr>],
       trafficInfos = None\<rparr>\<rparr>"

definition incomplete_response :: response where
  "incomplete_response =
     \<lparr>data = Some \<lparr>monitors = Some [\<lparr>lines = Some [\<lparr>name = ''13A'', line.towards = ''Hauptbahnhof'',
         type = None, line.barrierFree = None,
         departures = Some \<lparr>departure = Some [\<lparr>departure.departureTime = None\<rparr>]\<rparr>\<rparr>]\<rparr>],
       trafficInfos = None\<rparr>\<rparr>"

definition partial_response :: response where
  "partial_response =
     \<lparr>data = Some \<lparr>monitors = Some [\<lparr>lines = Some [\<lparr>name = ''13A'', line.towards = ''Hauptbahnhof'',
         type = None, line.barrierFree = None,
         departures = Some \<lparr>departure = Some
           [\<lparr>departure.departureTime = Some \<lparr>departureTime.countdown = 3\<rparr>\<rparr>,
            \<lparr>departure.departureTime = None\<rparr>]\<rparr>\<rparr>]\<rparr>],
       trafficInfos = None\<rparr>\<rparr>"

definition empty_dom :: dom where
  "empty_dom = \<lparr>departures_body = [], error_container = [], traffic_info_container = [],
     last_update = []\<rparr>"

definition demo_departure :: "int \<Rightarrow> departure_record" where
  "demo_departure c =
     \<lparr>line = ''13A'', towards = ''Hauptbahnhof'', lineType = ''ptBusCity'', barrierFree = True,
      departureTime = \<lparr>departureTime.countdown = c\<rparr>, countdown = c\<rparr>"


section \<open>Notions used to state the properties of the weather and metering pollers\<close>

text \<open>The codes of the static table, and the fallback entry.\<close>

definition table_codes :: "rat set" where
  "table_codes = {0, 1, 2, 3, 45, 48, 51, 53, 55, 61, 63, 65, 71, 73, 75, 77, 80, 81, 82, 85, 86,
     95, 96, 99}"

definition unknown_weather :: weatherInfo where
  "unknown_weather = \<lparr>icon = thermometer, description = ''Unbekannt''\<rparr>"

text \<open>Sample inputs: a parser that accepts one text only, and two states of the storage.\<close>

definition demo_parse :: "string \<Rightarrow> json option" where
  "demo_parse s = (if s = ''{}'' then Some (JObject []) else None)"

definition broken_storage :: "string \<rightharpoonup> string" where
  "broken_storage = [''smartmeter_config'' \<mapsto> ''{username:'']"

definition demo_location :: location where
  "demo_location = \<lparr>protocol = ''https:'', hostname = ''example.org''\<rparr>"

definition demo_widget :: smartmeter_widget where
  "demo_widget = \<lparr>smartmeter_value = ''117.3 kWh'', smartmeter_period = ''Diese Woche''\<rparr>"


section \<open>Notions used to state the properties of the relay\<close>

subsection \<open>Dates\<close>

definition valid_date :: "date \<Rightarrow> bool" where
  "valid_date d =
     (1 \<le> month d \<and> month d \<le> 12 \<and> 1 \<le> day d \<and> day d \<le> days_in_month (year d) (month d))"

text \<open>The number of a day, counted from the day before 1 January of year 1.\<close>

definition days_before_year :: "int \<Rightarrow> int" where
  "days_before_year y = 365 * (y - 1) + (y - 1) div 4 - (y - 1) div 100 + (y - 1) div 400"

definition days_before_month :: "int \<Rightarrow> int \<Rightarrow> int" where
  "days_before_month y m = sum_list (map (days_in_month y) [1..m - 1])"

definition day_number :: "date \<Rightarrow> int" where
  "day_number d = days_before_year (year d) + days_before_month (year d) (month d) + day d"

definition mk_date :: "int \<Rightarrow> int \<Rightarrow> int \<Rightarrow> date" where
  "mk_date y m d = \<lparr>year = y, month = m, day = d\<rparr>"

subsection \<open>The fields of a consumption request and the upstream answer\<close>

definition request_apiKey :: "request \<Rightarrow> string" where
  "request_apiKey req = coalesce (POST req ''password'') (POST req ''apiKey'') []"

definition request_meterId :: "request \<Rightarrow> string" where
  "request_meterId req = coalesce (POST req ''meterId'') (GET req ''meterId'') []"

definition request_period :: "request \<Rightarrow> string" where
  "request_period req = coalesce (POST req ''period'') (GET req ''period'') ''week''"

definition upstream_result :: "env \<Rightarrow> request \<Rightarrow> curl_result" where
  "upstream_result e req =
     curl_exec e (consumption_request (request_apiKey req) (request_meterId req)
                    (request_period req) (today e))"

subsection \<open>The three schemas of a consumption payload\<close>

text \<open>The readings under a member of the payload, when that member is an array.\<close>

definition readings_of :: "pval \<Rightarrow> string \<Rightarrow> pval list option" where
  "readings_of d k =
     (case isset_at d k of Some (PArray entries) \<Rightarrow> Some (map snd entries) | _ \<Rightarrow> None)"

text \<open>
  The schema of a payload: its array member, the two field names of a reading in the order
  they are tried, and the readings. When a payload has several of the three members, the
  first in the order \<^verbatim>\<open>values\<close>, \<^verbatim>\<open>messwerte\<close>, \<^verbatim>\<open>data\<close> counts.
\<close>

definition recognized_schema :: "pval \<Rightarrow> (string \<times> string \<times> pval list) option" where
  "recognized_schema d =
     (case readings_of d ''values'' of
        Some rs \<Rightarrow> Some (''value'', ''wert'', rs)
      | None \<Rightarrow>
        (case readings_of d ''messwerte'' of
           Some rs \<Rightarrow> Some (''wert'', ''value'', rs)
         | None \<Rightarrow>
           (case readings_of d ''data'' of
              Some rs \<Rightarrow> Some (''consumption'', ''verbrauch'', rs)
            | None \<Rightarrow> None)))"

text \<open>The field of a reading that carries its amount: the first of the two that is there.\<close>

definition reading_field :: "string \<Rightarrow> string \<Rightarrow> pval \<Rightarrow> pval option" where
  "reading_field a b r = (case isset_at r a of Some v \<Rightarrow> Some v | None \<Rightarrow> isset_at r b)"

text \<open>
  What a reading adds to the total: \<^verbatim>\<open>floatval\<close> of that field, of the integer 0 when it has
  neither field.
\<close>

definition reading_value :: "env \<Rightarrow> string \<Rightarrow> string \<Rightarrow> pval \<Rightarrow> number" where
  "reading_value e a b r =
     floatval e (case reading_field a b r of Some v \<Rightarrow> v | None \<Rightarrow> PInt 0)"

text \<open>The total of a list of floats, added one after the other to PHP's integer 0.\<close>

definition php_sum :: "env \<Rightarrow> number list \<Rightarrow> total" where
  "php_sum e xs = foldl (plus_float e) (IntTotal 0) xs"

text \<open>
  Every addition of such a total is exact: all the floats are finite and each sum of the
  running total and the next float is their sum as numbers.
\<close>

fun exact_additions :: "env \<Rightarrow> rat \<Rightarrow> number list \<Rightarrow> bool" where
  "exact_additions e acc [] = True"
| "exact_additions e acc (Finite x # xs) =
     (float_add e (Finite acc) (Finite x) = Finite (acc + x) \<and> exact_additions e (acc + x) xs)"
| "exact_additions e acc (NaN # xs) = False"
| "exact_additions e acc (Infinity # xs) = False"
| "exact_additions e acc (NegInfinity # xs) = False"

fun finite_value :: "number \<Rightarrow> rat" where
  "finite_value (Finite x) = x"
| "finite_value NaN = 0"
| "finite_value Infinity = 0"
| "finite_value NegInfinity = 0"

text \<open>
  The number a reading carries, for the sum of the numeric readings: the number in its
  amount field, 0 for a reading whose amount field is missing or is not a number.
\<close>

fun number_of :: "pval \<Rightarrow> rat option" where
  "number_of (PInt i) = Some (of_int i)"
| "number_of (PFloat x) = (if is_finite x then Some (finite_value x) else None)"
| "number_of PNull = None"
| "number_of (PBool b) = None"
| "number_of (PString s) = None"
| "number_of (PArray entries) = None"

definition amount :: "string \<Rightarrow> string \<Rightarrow> pval \<Rightarrow> rat" where
  "amount a b r =
     (case reading_field a b r of
        None \<Rightarrow> 0
      | Some v \<Rightarrow> (case number_of v of Some q \<Rightarrow> q | None \<Rightarrow> 0))"

text \<open>The float the code adds for a reading is the number the reading carries.\<close>

definition exact_reading :: "env \<Rightarrow> string \<Rightarrow> string \<Rightarrow> pval \<Rightarrow> bool" where
  "exact_reading e a b r = (reading_value e a b r = Finite (amount a b r))"

subsection \<open>Replies\<close>

definition consumption_data :: "number \<Rightarrow> pval \<Rightarrow> pval" where
  "consumption_data kWh d =
     PArray [(StrKey ''weeklyConsumption'', PFloat kWh),
             (StrKey ''period'', PString ''Diese Woche''),
             (StrKey ''unit'', PString ''kWh''),
             (StrKey ''rawData'', d)]"

text \<open>The reply that carries a JSON object with \<^verbatim>\<open>success\<close> and \<^verbatim>\<open>data\<close>, or with \<^verbatim>\<open>success\<close> and \<^verbatim>\<open>error\<close>.\<close>

definition success_reply :: "pval \<Rightarrow> reply" where
  "success_reply d =
     \<lparr>http_response_code = 200,
      echo = JsonEncode (PArray [(StrKey ''success'', PBool True), (StrKey ''data'', d)])\<rparr>"

definition error_reply :: "string \<Rightarrow> int \<Rightarrow> reply" where
  "error_reply message code =
     \<lparr>http_response_code = code,
      echo = JsonEncode (PArray [(StrKey ''success'', PBool False),
                                 (StrKey ''error'', PString message)])\<rparr>"

text \<open>
  What the reply to a consumption request takes from the upstream answer can be encoded:
  the curl error; of an answer with status 200 that decodes, the rounded total (finite) and
  the payload (which goes two arrays deep into the reply); of an answer with a status other
  than 200, 401 and 404, the first 200 bytes of its body.
\<close>

definition upstream_encodable :: "env \<Rightarrow> request \<Rightarrow> bool" where
  "upstream_encodable e req =
     (if \<not> empty_string (curlError (upstream_result e req))
        then valid_utf8 (curlError (upstream_result e req))
      else if httpCode (upstream_result e req) = 200
        then (case json_decode e (response (upstream_result e req)) of
                None \<Rightarrow> True
              | Some d \<Rightarrow> is_finite (round2 e (total_consumption e d)) \<and> encodable 510 d)
      else if httpCode (upstream_result e req) = 401 \<or> httpCode (upstream_result e req) = 404
        then True
      else valid_utf8 (take 200 (response (upstream_result e req))))"

fun is_string_key :: "key \<Rightarrow> bool" where
  "is_string_key (StrKey s) = True"
| "is_string_key (IntKey i) = False"

text \<open>
  What is printed is the JSON text of an array with string keys (a JSON object) that has a
  boolean member \<^verbatim>\<open>success\<close>, a member \<^verbatim>\<open>data\<close> exactly when \<^verbatim>\<open>success\<close> is true and a member
  \<^verbatim>\<open>error\<close> exactly when it is false.
\<close>

definition success_shaped :: "printed \<Rightarrow> bool" where
  "success_shaped p =
     (case p of
        JsonEncode (PArray entries) \<Rightarrow>
          list_all is_string_key (map fst entries) \<and>
          (case map_of entries (StrKey ''success'') of
             Some (PBool b) \<Rightarrow>
               (StrKey ''data'' \<in> fst ` set entries) = b \<and>
               (StrKey ''error'' \<in> fst ` set entries) = (\<not> b)
           | _ \<Rightarrow> False)
      | _ \<Rightarrow> False)"

subsection \<open>Sample inputs\<close>

text \<open>
  An arithmetic that is exact on finite numbers, as doubles are on the few small values of
  the samples (eighths and small integers), with rounding to hundredths, a tie going away
  from zero.
\<close>

fun exact_add :: "number \<Rightarrow> number \<Rightarrow> number" where
  "exact_add (Finite a) (Finite b) = Finite (a + b)"
| "exact_add (Finite a) y = y"
| "exact_add x (Finite b) = x"
| "exact_add Infinity Infinity = Infinity"
| "exact_add NegInfinity NegInfinity = NegInfinity"
| "exact_add x y = NaN"

fun exact_round :: "number \<Rightarrow> number" where
  "exact_round (Finite x) =
     Finite (if 0 \<le> x then of_int \<lfloor>x * 100 + 1 / 2\<rfloor> / 100
             else - (of_int \<lfloor>- x * 100 + 1 / 2\<rfloor> / 100))"
| "exact_round x = x"

text \<open>
  Surroundings in which the upstream service answers every request with the given status
  and body, and the body decodes to the given payload.
\<close>

definition sample_env :: "int \<Rightarrow> string \<Rightarrow> pval \<Rightarrow> env" where
  "sample_env code body payload =
     \<lparr>today = mk_date 2024 5 17,
      curl_exec = (\<lambda>u. \<lparr>response = body, httpCode = code, curlError = []\<rparr>),
      json_decode = (\<lambda>s. if s = body then Some payload else None),
      sys_get_temp_dir = ''/tmp'',
      float_add = exact_add,
      float_of_int = (\<lambda>i. Finite (of_int i)),
      float_round = exact_round,
      strtod = (\<lambda>s. Finite 0)\<rparr>"

text \<open>
  Payloads: three readings under \<^verbatim>\<open>messwerte\<close> (0.125 under \<^verbatim>\<open>wert\<close>, 3 under \<^verbatim>\<open>value\<close>, one
  without an amount), and two readings under \<^verbatim>\<open>values\<close>, the first of which carries
  \<^verbatim>\<open>true\<close>.
\<close>

definition sample_payload :: pval where
  "sample_payload =
     PArray [(StrKey ''zaehlpunkt'', PString ''AT001''),
             (StrKey ''messwerte'',
                PArray [(IntKey 0, PArray [(StrKey ''wert'', PFloat (Finite (1 / 8)))]),
                        (IntKey 1, PArray [(StrKey ''value'', PInt 3)]),
                        (IntKey 2, PArray [(StrKey ''zeit'', PString ''2024-05-01'')])])]"

definition boolean_payload :: pval where
  "boolean_payload =
     PArray [(StrKey ''values'',
                PArray [(IntKey 0, PArray [(StrKey ''value'', PBool True)]),
                        (IntKey 1, PArray [(StrKey ''value'', PInt 2)])])]"

text \<open>The payload \<^verbatim>\<open>{"values":[{"value":1e999}]}\<close>, whose number \<^verbatim>\<open>json_decode\<close> reads as \<^verbatim>\<open>INF\<close>.\<close>

definition infinite_payload :: pval where
  "infinite_payload =
     PArray [(StrKey ''values'',
                PArray [(IntKey 0, PArray [(StrKey ''value'', PFloat Infinity)])])]"

text \<open>
  A body of 199 letters and one two-byte character: its first 200 bytes end with the first
  byte of that character.
\<close>

definition cut_body :: string where
  "cut_body = replicate 199 (CHR ''a'') @ auml"

definition sample_server :: server where
  "sample_server = \<lparr>SESSION = Map.empty, session_id = ''abc'', files = {}\<rparr>"

definition post_request :: "(string \<times> string) list \<Rightarrow> request" where
  "post_request form = \<lparr>REQUEST_METHOD = ''POST'', POST = map_of form, GET = Map.empty\<rparr>"

definition get_request :: "(string \<times> string) list \<Rightarrow> request" where
  "get_request form = \<lparr>REQUEST_METHOD = ''GET'', POST = Map.empty, GET = map_of form\<rparr>"

definition options_request :: "(string \<times> string) list \<Rightarrow> request" where
  "options_request form =
     \<lparr>REQUEST_METHOD = ''OPTIONS'', POST = Map.empty, GET = map_of form\<rparr>"

definition sample_request :: request where
  "sample_request =
     post_request [(''action'', ''getConsumption''), (''username'', ''u''), (''password'', ''key''),
                   (''meterId'', ''AT001''), (''period'', ''week'')]"


section \<open>Properties of the departure poller\<close>

subsection \<open>Countdown text\<close>

lemma of_char_digit: "d < 10 \<Longrightarrow> of_char (digit d) = 48 + d"
proof -
  assume "d < 10"
  then have "d \<in> {0, 1, 2, 3, 4, 5, 6, 7, 8, 9}" by auto
  then show ?thesis by (auto simp: digit_def)
qed

lemma nat_of_string_of_nat: "nat_of_string (string_of_nat n) = n"
proof (induction n rule: string_of_nat.induct)
  case (1 n)
  show ?case
  proof (cases "n < 10")
    case True
    then show ?thesis
      by (subst string_of_nat.simps) (simp add: nat_of_string_def of_char_digit)
  next
    case False
    with 1 show ?thesis
      by (subst string_of_nat.simps) (simp add: nat_of_string_def of_char_digit)
  qed
qed

lemma string_of_nat_not_Nil: "string_of_nat n \<noteq> []"
  by (subst string_of_nat.simps) simp

lemma hd_string_of_nat: "of_char (hd (string_of_nat n)) < (58::nat)"
proof (induction n rule: string_of_nat.induct)
  case (1 n)
  show ?case
  proof (cases "n < 10")
    case True
    then show ?thesis
      by (subst string_of_nat.simps) (simp add: of_char_digit)
  next
    case False
    with 1 show ?thesis
      by (subst string_of_nat.simps) (simp add: string_of_nat_not_Nil)
  qed
qed

lemma string_of_nat_digit: "n < 10 \<Longrightarrow> string_of_nat n = [digit n]"
  by (subst string_of_nat.simps) simp

lemma string_of_nat_12: "string_of_nat 12 = ''12''"
  by (simp add: string_of_nat.simps [of 12] string_of_nat_digit digit_def)

text \<open>
  Claim C7. The countdown cell of a rendered departure: a countdown of 0 gives the text
  \<^verbatim>\<open>JETZT\<close>, a countdown of 1 gives \<^verbatim>\<open>1 min\<close>, and a countdown \<open>n\<close> above 1 gives the
  number as the template literal prints it, followed by \<^verbatim>\<open> min\<close>. Up to \<open>2^53\<close> what is
  printed is the decimal numeral of \<open>n\<close> (reading it back gives \<open>n\<close>), and the text is
  neither of the other two.
\<close>

theorem createDepartureRow_countdown_text:
  fixes dep :: departure_record and beyond :: "int \<Rightarrow> string"
  defines "n \<equiv> departure_record.countdown dep"
  defines "text \<equiv> countdown_text (createDepartureRow beyond dep)"
  shows "(n = 0 \<longrightarrow> text = ''JETZT'')
       \<and> (n = 1 \<longrightarrow> text = ''1 min'')
       \<and> (1 < n \<longrightarrow> text = number_toString beyond n @ '' min'')
       \<and> (1 < n \<and> n \<le> 9007199254740992 \<longrightarrow>
            text = string_of_nat (nat n) @ '' min''
            \<and> nat_of_string (string_of_nat (nat n)) = nat n
            \<and> text \<noteq> ''JETZT'' \<and> text \<noteq> ''1 min'')"
proof -
  have zero: "text = ''JETZT''" if "n = 0"
    using that by (simp add: text_def n_def createDepartureRow_def)
  have one: "text = ''1 min''" if "n = 1"
    using that by (simp add: text_def n_def createDepartureRow_def)
  have more: "text = number_toString beyond n @ '' min''" if "1 < n"
    using that by (simp add: text_def n_def createDepartureRow_def)
  have safe: "text = string_of_nat (nat n) @ '' min'' \<and>
              nat_of_string (string_of_nat (nat n)) = nat n \<and>
              text \<noteq> ''JETZT'' \<and> text \<noteq> ''1 min''" if "1 < n" "n \<le> 9007199254740992"
  proof -
    have eq: "text = string_of_nat (nat n) @ '' min''"
      using that more by (simp add: number_toString_def string_of_int_def)
    have "hd text = hd (string_of_nat (nat n))"
      by (simp add: eq string_of_nat_not_Nil)
    then have "of_char (hd text) < (58::nat)"
      by (simp add: hd_string_of_nat)
    then have not_now: "text \<noteq> ''JETZT''"
      by auto
    have not_one: "text \<noteq> ''1 min''"
    proof
      assume "text = ''1 min''"
      with eq have "string_of_nat (nat n) @ '' min'' = ''1'' @ '' min''"
        by simp
      then have "string_of_nat (nat n) = ''1''"
        by (simp only: append_same_eq)
      then have "nat_of_string (string_of_nat (nat n)) = nat_of_string ''1''"
        by simp
      moreover have "nat_of_string ''1'' = 1"
        by (simp add: nat_of_string_def)
      ultimately have "nat n = 1"
        by (simp only: nat_of_string_of_nat)
      with that show False by simp
    qed
    from eq not_now not_one show ?thesis
      by (simp add: nat_of_string_of_nat)
  qed
  from zero one more safe show ?thesis by blast
qed

theorem createDepartureRow_countdown_text_witness:
  "departure_record.countdown (demo_departure 0) = 0
   \<and> countdown_text (createDepartureRow demo_beyond (demo_departure 0)) = ''JETZT''
   \<and> departure_record.countdown (demo_departure 1) = 1
   \<and> countdown_text (createDepartureRow demo_beyond (demo_departure 1)) = ''1 min''
   \<and> 1 < departure_record.countdown (demo_departure 12)
   \<and> departure_record.countdown (demo_departure 12) \<le> 9007199254740992
   \<and> countdown_text (createDepartureRow demo_beyond (demo_departure 12)) = ''12 min''
   \<and> 1 < departure_record.countdown (demo_departure 1000000000000000000000)
   \<and> countdown_text (createDepartureRow demo_beyond (demo_departure 1000000000000000000000)) =
       ''1e+21 min''"
  using createDepartureRow_countdown_text [of "demo_departure 0" demo_beyond]
        createDepartureRow_countdown_text [of "demo_departure 1" demo_beyond]
        createDepartureRow_countdown_text [of "demo_departure 12" demo_beyond]
        createDepartureRow_countdown_text [of "demo_departure 1000000000000000000000" demo_beyond]
  by (simp add: demo_departure_def string_of_nat_12 number_toString_def demo_beyond_def
      string_of_int_def)

subsection \<open>Merging\<close>

lemma merge_step_eq:
  "merge_step (ms, ts) r = (ms @ response_monitors r, ts @ response_trafficInfos r)"
  by (simp add: merge_step_def response_monitors_def response_trafficInfos_def
      split: option.splits)

lemma fold_merge_step:
  "fold (\<lambda>response merged. merge_step merged response) rs (ms, ts) =
     (ms @ concat (map response_monitors rs), ts @ concat (map response_trafficInfos rs))"
  by (induction rs arbitrary: ms ts) (simp_all add: merge_step_eq)

lemma response_monitors_merge:
  "response_monitors (mergeAPIResponses rs) = concat (map response_monitors rs)"
  by (simp add: mergeAPIResponses_def fold_merge_step response_monitors_def)

text \<open>
  Claim C4. Merging a list of station responses gives an object whose \<^verbatim>\<open>monitors\<close> array is
  the concatenation, in order, of the inputs' \<^verbatim>\<open>monitors\<close> arrays and whose
  \<^verbatim>\<open>trafficInfos\<close> array is the concatenation of the inputs' \<^verbatim>\<open>trafficInfos\<close> arrays. For
  two responses the merged monitors are, as a multiset, the sum of both inputs: every record
  of either input is there, as often as in the inputs, and nothing else is.
\<close>

theorem mergeAPIResponses_concat:
  "mergeAPIResponses rs =
     \<lparr>data = Some \<lparr>monitors = Some (concat (map response_monitors rs)),
                   trafficInfos = Some (concat (map response_trafficInfos rs))\<rparr>\<rparr>
   \<and> mset (response_monitors (mergeAPIResponses [a, b])) =
       mset (response_monitors a) + mset (response_monitors b)
   \<and> set (response_monitors (mergeAPIResponses [a, b])) =
       set (response_monitors a) \<union> set (response_monitors b)"
proof -
  have "mergeAPIResponses rs =
     \<lparr>data = Some \<lparr>monitors = Some (concat (map response_monitors rs)),
                   trafficInfos = Some (concat (map response_trafficInfos rs))\<rparr>\<rparr>"
    by (simp add: mergeAPIResponses_def fold_merge_step)
  moreover have "response_monitors (mergeAPIResponses [a, b]) =
                   response_monitors a @ response_monitors b"
    by (simp add: response_monitors_merge)
  ultimately show ?thesis by simp
qed

subsection \<open>Sorting and truncation\<close>

lemma insert_by_countdown:
  "insert_by by_countdown x ys = insort_key departure_record.countdown x ys"
  by (induction ys) (simp_all add: by_countdown_def)

lemma sort_by_countdown:
  "sort_by by_countdown xs = sort_key departure_record.countdown xs"
  by (induction xs) (simp_all add: sort_by_def insert_by_countdown)

lemma rendered_rows_map_Tr: "rendered_rows (map (\<lambda>x. Tr (f x)) xs) = map f xs"
  by (induction xs) simp_all

lemma sort_by_Nil_iff: "sort_by by_countdown xs = [] \<longleftrightarrow> xs = []"
proof -
  have "length (sort_by by_countdown xs) = length xs"
    by (simp add: sort_by_countdown)
  then show ?thesis by (metis length_0_conv)
qed

lemma collect_Inl:
  "collect f xs = Inl e \<Longrightarrow> \<exists>x \<in> set xs. f x = Inl e"
  by (induction xs) (auto split: sum.splits)

lemma collect_Inl_iff:
  "(\<exists>e. collect f xs = Inl e) \<longleftrightarrow> (\<exists>x \<in> set xs. \<exists>e. f x = Inl e)"
  by (induction xs) (auto split: sum.splits)

lemma push_departure_Inl:
  "(\<exists>e. push_departure l d = Inl e) \<longleftrightarrow> departure.departureTime d = None"
  by (auto simp: push_departure_def split: option.splits)

lemma push_departure_TypeError:
  "push_departure l d = Inl e \<Longrightarrow> e = TypeError"
  by (auto simp: push_departure_def split: option.splits)

lemma line_departures_Inl:
  "(\<exists>e. line_departures l = Inl e) \<longleftrightarrow>
     (\<exists>d \<in> set (line_payload l). departure.departureTime d = None)"
  by (auto simp: line_departures_def line_payload_def collect_Inl_iff push_departure_Inl
      split: option.splits)

lemma monitor_departures_Inl:
  "(\<exists>e. monitor_departures m = Inl e) \<longleftrightarrow>
     (\<exists>d \<in> set (monitor_payload m). departure.departureTime d = None)"
  by (auto simp: monitor_departures_def monitor_payload_def collect_Inl_iff line_departures_Inl
      split: option.splits)

lemma flatten_Inl:
  "(\<exists>e. flatten ms = Inl e) \<longleftrightarrow>
     (\<exists>d \<in> set (concat (map monitor_payload ms)). departure.departureTime d = None)"
  by (auto simp: flatten_def collect_Inl_iff monitor_departures_Inl)


lemma collect_complete:
  assumes "\<And>x. x \<in> set xs \<Longrightarrow> \<exists>ys. f x = Inr ys \<and> length ys = g x"
  shows "\<exists>zs. collect f xs = Inr zs \<and> length zs = sum_list (map g xs)"
  using assms by (induction xs) fastforce+

lemma line_departures_complete:
  assumes "\<forall>d \<in> set (line_payload l). departure.departureTime d \<noteq> None"
  shows "\<exists>ys. line_departures l = Inr ys \<and> length ys = length (line_payload l)"
proof (cases "departures l")
  case None
  then show ?thesis by (simp add: line_departures_def line_payload_def)
next
  case (Some ds)
  show ?thesis
  proof (cases "departure ds")
    case None
    with Some show ?thesis by (simp add: line_departures_def line_payload_def)
  next
    case (Some xs)
    with \<open>departures l = Some ds\<close> assms
    have "\<And>d. d \<in> set xs \<Longrightarrow> \<exists>ys. push_departure l d = Inr ys \<and> length ys = (\<lambda>d. 1) d"
      by (auto simp: line_payload_def push_departure_def)
    from collect_complete [of xs "push_departure l" "\<lambda>d. 1", OF this]
    show ?thesis
      using Some \<open>departures l = Some ds\<close>
      by (simp add: line_departures_def line_payload_def sum_list_triv)
  qed
qed

lemma monitor_departures_complete:
  assumes "\<forall>d \<in> set (monitor_payload m). departure.departureTime d \<noteq> None"
  shows "\<exists>ys. monitor_departures m = Inr ys \<and> length ys = length (monitor_payload m)"
proof (cases "lines m")
  case None
  then show ?thesis by (simp add: monitor_departures_def monitor_payload_def)
next
  case (Some ls)
  with assms
  have "\<And>l. l \<in> set ls \<Longrightarrow>
          \<exists>ys. line_departures l = Inr ys \<and> length ys = length (line_payload l)"
    by (intro line_departures_complete) (auto simp: monitor_payload_def)
  from collect_complete [of ls line_departures "\<lambda>l. length (line_payload l)", OF this]
  show ?thesis
    using Some by (auto simp: monitor_departures_def monitor_payload_def length_concat comp_def)
qed

lemma flatten_complete:
  assumes "complete_payload r"
  shows "\<exists>all_deps. flatten (response_monitors r) = Inr all_deps \<and>
           length all_deps = length (payload_departures r)"
proof -
  from assms
  have "\<And>m. m \<in> set (response_monitors r) \<Longrightarrow>
          \<exists>ys. monitor_departures m = Inr ys \<and> length ys = length (monitor_payload m)"
    by (intro monitor_departures_complete)
       (auto simp: complete_payload_def payload_departures_def list_all_iff)
  from collect_complete [of "response_monitors r" monitor_departures
                            "\<lambda>m. length (monitor_payload m)", OF this]
  show ?thesis
    by (simp add: flatten_def payload_departures_def length_concat comp_def)
qed

lemma flatten_incomplete:
  assumes "\<not> complete_payload r"
  shows "flatten (response_monitors r) = Inl TypeError"
proof -
  from assms have "\<exists>d \<in> set (concat (map monitor_payload (response_monitors r))).
                     departure.departureTime d = None"
    by (auto simp: complete_payload_def payload_departures_def list_all_iff)
  then obtain e where e: "flatten (response_monitors r) = Inl e"
    using flatten_Inl [of "response_monitors r"] by blast
  then obtain m where "monitor_departures m = Inl e"
    unfolding flatten_def by (blast dest: collect_Inl)
  then obtain l where "line_departures l = Inl e"
    by (auto simp: monitor_departures_def split: option.splits if_splits dest: collect_Inl)
  then obtain d where "push_departure l d = Inl e"
    by (auto simp: line_departures_def split: option.splits dest: collect_Inl)
  then have "e = TypeError"
    by (rule push_departure_TypeError)
  with e show ?thesis by simp
qed


lemma displayDepartures_flattened:
  assumes "flatten (response_monitors r) = Inr all_deps"
  shows "\<exists>nodes. displayDepartures beyond r = Inr nodes
           \<and> rendered_rows nodes =
               map (createDepartureRow beyond)
                 (take MAX_DEPARTURES (sort_by by_countdown all_deps))
           \<and> (all_deps \<noteq> [] \<longrightarrow>
                nodes = map (\<lambda>dep. Tr (createDepartureRow beyond dep))
                          (take MAX_DEPARTURES (sort_by by_countdown all_deps)))"
proof (cases "data r")
  case None
  with assms show ?thesis
    by (simp add: displayDepartures_def response_monitors_def flatten_def sort_by_def)
next
  case (Some d)
  show ?thesis
  proof (cases "monitors d")
    case None
    with Some assms show ?thesis
      by (simp add: displayDepartures_def response_monitors_def flatten_def sort_by_def)
  next
    case ms: (Some ms)
    show ?thesis
    proof (cases "ms = []")
      case True
      with Some ms assms show ?thesis
        by (simp add: displayDepartures_def response_monitors_def flatten_def sort_by_def)
    next
      case False
      from Some ms assms have fl: "flatten ms = Inr all_deps"
        by (simp add: response_monitors_def)
      show ?thesis
      proof (cases "all_deps = []")
        case True
        with Some ms False fl show ?thesis
          by (simp add: displayDepartures_def sort_by_def)
      next
        case ne: False
        then have "sort_by by_countdown all_deps \<noteq> []"
          by (simp add: sort_by_Nil_iff)
        with Some ms False fl ne show ?thesis
          by (simp add: displayDepartures_def Let_def rendered_rows_map_Tr)
      qed
    qed
  qed
qed

lemma displayDepartures_throws:
  assumes "\<not> complete_payload r"
  shows "displayDepartures beyond r = Inl TypeError"
proof -
  from assms have fl: "flatten (response_monitors r) = Inl TypeError"
    by (rule flatten_incomplete)
  then obtain d where d: "data r = Some d"
    by (cases "data r") (simp_all add: response_monitors_def flatten_def)
  with fl obtain ms where ms: "monitors d = Some ms"
    by (cases "monitors d") (simp_all add: response_monitors_def flatten_def)
  with d fl have "flatten ms = Inl TypeError"
    by (simp add: response_monitors_def)
  moreover from this have "ms \<noteq> []"
    by (auto simp: flatten_def)
  ultimately show ?thesis
    using d ms by (simp add: displayDepartures_def)
qed



lemma demo_response_complete: "complete_payload (demo_response cs)"
  by (simp add: complete_payload_def payload_departures_def response_monitors_def monitor_payload_def
      line_payload_def demo_response_def list_all_iff)


subsection \<open>The poll cycle\<close>

lemma showFallbackData_literal: "showFallbackData = [Html demo_table]"
  by (simp add: showFallbackData_def demo_table_def demo_row_def spaces_def nl_def wheelchair_def
      eval_nat_numeral)

lemma payload_departures_merge:
  "payload_departures (mergeAPIResponses rs) = concat (map payload_departures rs)"
  by (induction rs) (simp_all add: payload_departures_def response_monitors_merge)

lemma complete_payload_merge:
  "complete_payload (mergeAPIResponses rs) \<longleftrightarrow> list_all complete_payload rs"
  by (auto simp: complete_payload_def payload_departures_merge list_all_iff)

lemma live_differs:
  "displayDepartures beyond r = Inr nodes \<Longrightarrow> nodes \<noteq> [Html demo_table]"
  by (auto simp: displayDepartures_def demo_table_def Let_def
      split: option.splits if_splits sum.splits)

lemma validResults_successes:
  "map the (filter (\<lambda>data. data \<noteq> None) (map fetchStop outcomes)) = successes outcomes"
  by (induction outcomes) (auto simp: successes_def)

lemma successes_Nil_iff:
  "successes outcomes = [] \<longleftrightarrow> (\<forall>outcome \<in> set outcomes. fetchStop outcome = None)"
  by (induction outcomes) (auto simp: successes_def split: option.splits)

lemma catch_handler_page:
  "error_container (catch_handler d e) = error_banner \<and>
   departures_body (catch_handler d e) = [Html demo_table] \<and>
   traffic_info_container (catch_handler d e) = traffic_info_container d \<and>
   last_update (catch_handler d e) = last_update d"
  by (simp add: catch_handler_def showError_def error_banner_def showFallbackData_literal)

lemma loadDepartures_successes:
  "loadDepartures beyond timeString outcomes d0 =
     (case successes outcomes of
        [] \<Rightarrow> catch_handler (clearError (showLoading d0)) (Error ''All API requests failed'')
      | first # rest \<Rightarrow>
          (case displayDepartures beyond (mergeAPIResponses (successes outcomes)) of
             Inl e \<Rightarrow> catch_handler (clearError (showLoading d0)) e
           | Inr tbody \<Rightarrow>
               (clearError (showLoading d0))
                 \<lparr>departures_body := tbody,
                  traffic_info_container := displayTrafficInfo first,
                  last_update := ''Letzte Aktualisierung: '' @ timeString\<rparr>))"
  unfolding loadDepartures_def Let_def validResults_successes by (rule refl)







section \<open>Properties of the weather poller\<close>

lemma weatherMap_lookup_None:
  "code \<notin> Finite ` table_codes \<Longrightarrow> weatherMap_lookup code = None"
  by (cases code) (auto simp: weatherMap_lookup_def weatherMap_def table_codes_def)

lemma weatherMap_entries:
  "info \<in> snd ` set weatherMap \<Longrightarrow> icon info \<noteq> [] \<and> description info \<noteq> []"
  by (auto simp: weatherMap_def sun_def sun_small_cloud_def sun_behind_cloud_def cloud_def
      fog_def sun_rain_cloud_def rain_cloud_def snow_cloud_def thunder_cloud_def Uuml_def)

lemma weatherMap_lookup_Some:
  "weatherMap_lookup code = Some info \<Longrightarrow> info \<in> snd ` set weatherMap"
  by (cases code) (auto simp: weatherMap_lookup_def dest!: map_of_SomeD intro: rev_image_eqI)

text \<open>
  Claim C8. The lookup maps code 0 to the clear-sky entry; every number that is not one of
  the table's codes (a finite number off the table, \<^verbatim>\<open>NaN\<close>, an infinity) gets the fallback
  entry; and for every number the lookup returns an entry, either one of the table or the
  fallback, with a pictograph and a description.
\<close>

theorem getWeatherInfo_table_or_fallback:
  "getWeatherInfo (Finite 0) = \<lparr>icon = sun, description = ''Klar''\<rparr>
   \<and> (code \<notin> Finite ` table_codes \<longrightarrow> getWeatherInfo code = unknown_weather)
   \<and> (getWeatherInfo code \<in> snd ` set weatherMap \<or> getWeatherInfo code = unknown_weather)
   \<and> icon (getWeatherInfo code) \<noteq> [] \<and> description (getWeatherInfo code) \<noteq> []"
proof -
  have zero: "getWeatherInfo (Finite 0) = \<lparr>icon = sun, description = ''Klar''\<rparr>"
    by (simp add: getWeatherInfo_def weatherMap_lookup_def weatherMap_def)
  have off: "getWeatherInfo code = unknown_weather" if "code \<notin> Finite ` table_codes"
    using weatherMap_lookup_None [OF that] by (simp add: getWeatherInfo_def unknown_weather_def)
  have range: "getWeatherInfo code \<in> snd ` set weatherMap \<or> getWeatherInfo code = unknown_weather"
  proof (cases "weatherMap_lookup code")
    case None
    then show ?thesis by (simp add: getWeatherInfo_def unknown_weather_def)
  next
    case (Some info)
    then show ?thesis using weatherMap_lookup_Some [OF Some] by (simp add: getWeatherInfo_def)
  qed
  have "icon unknown_weather \<noteq> [] \<and> description unknown_weather \<noteq> []"
    by (simp add: unknown_weather_def thermometer_def)
  with range weatherMap_entries [of "getWeatherInfo code"]
  have shape: "icon (getWeatherInfo code) \<noteq> [] \<and> description (getWeatherInfo code) \<noteq> []"
    by auto
  from zero off range shape show ?thesis by blast
qed

theorem getWeatherInfo_table_or_fallback_witness:
  "Finite 4 \<notin> Finite ` table_codes \<and> getWeatherInfo (Finite 4) = unknown_weather
   \<and> Finite (1 / 2) \<notin> Finite ` table_codes \<and> getWeatherInfo (Finite (1 / 2)) = unknown_weather
   \<and> NaN \<notin> Finite ` table_codes \<and> getWeatherInfo NaN = unknown_weather"
  using getWeatherInfo_table_or_fallback [of "Finite 4"]
        getWeatherInfo_table_or_fallback [of "Finite (1 / 2)"]
        getWeatherInfo_table_or_fallback [of NaN]
  by (auto simp: table_codes_def)

section \<open>Properties of the metering poller\<close>

text \<open>
  Claim C9. When the stored credentials text is present and is not JSON, reading the
  credentials returns \<^verbatim>\<open>null\<close> (nothing is thrown), and the poller does exactly what it does
  when nothing is stored: it writes the static placeholder and starts neither the demo
  timer nor a request to the relay.
\<close>

theorem unparseable_credentials_unconfigured:
  assumes "localStorage ''smartmeter_config'' = Some stored"
    and "parse stored = None"
  shows "getSmartMeterCredentials parse localStorage = JNull
       \<and> loadSmartMeterData parse loc localStorage w =
           loadSmartMeterData parse loc (localStorage(''smartmeter_config'' := None)) w
       \<and> loadSmartMeterData parse loc localStorage w =
           (w\<lparr>smartmeter_value := ''-- kWh'', smartmeter_period := ''Nicht konfiguriert''\<rparr>,
            Nothing)"
  using assms by (simp add: getSmartMeterCredentials_def loadSmartMeterData_def)

theorem unparseable_credentials_unconfigured_witness:
  "broken_storage ''smartmeter_config'' = Some ''{username:''
   \<and> demo_parse ''{username:'' = None
   \<and> loadSmartMeterData demo_parse demo_location broken_storage demo_widget =
       (\<lparr>smartmeter_value = ''-- kWh'', smartmeter_period = ''Nicht konfiguriert''\<rparr>, Nothing)"
proof -
  have stored: "broken_storage ''smartmeter_config'' = Some ''{username:''"
    by (simp add: broken_storage_def)
  have broken: "demo_parse ''{username:'' = None"
    by (simp add: demo_parse_def)
  from unparseable_credentials_unconfigured
         [of broken_storage "''{username:''" demo_parse demo_location demo_widget,
          OF stored broken, THEN conjunct2, THEN conjunct2]
  have "loadSmartMeterData demo_parse demo_location broken_storage demo_widget =
       (\<lparr>smartmeter_value = ''-- kWh'', smartmeter_period = ''Nicht konfiguriert''\<rparr>, Nothing)"
    by (simp add: demo_widget_def)
  with stored broken show ?thesis by simp
qed


section \<open>Properties of the relay\<close>

subsection \<open>Day numbers\<close>

lemma div_step:
  fixes y k :: int
  assumes "0 < k"
  shows "y div k = (y - 1) div k + (if y mod k = 0 then 1 else 0)"
proof (cases "y mod k = 0")
  case True
  have "y - 1 = k * (y div k - 1) + (k - 1)"
    using True mult_div_mod_eq [of k y] by (simp add: algebra_simps)
  then have "(y - 1) div k = y div k - 1"
    using assms by (intro int_div_pos_eq [of _ _ _ "k - 1"]) simp_all
  with True show ?thesis by simp
next
  case False
  have "0 \<le> y mod k" "y mod k < k"
    using assms by simp_all
  with False have r: "0 \<le> y mod k - 1" "y mod k - 1 < k"
    by simp_all
  have "y - 1 = k * (y div k) + (y mod k - 1)"
    using mult_div_mod_eq [of k y] by simp
  then have "(y - 1) div k = y div k"
    using r by (intro int_div_pos_eq [of _ _ _ "y mod k - 1"]) simp_all
  with False show ?thesis by simp
qed

lemma mod_400_100:
  assumes "(y::int) mod 400 = 0"
  shows "y mod 100 = 0"
proof -
  from assms have "400 dvd y" by (simp add: mod_eq_0_iff_dvd)
  moreover have "(100::int) dvd 400" by simp
  ultimately have "100 dvd y" using dvd_trans by blast
  then show ?thesis by (simp add: mod_eq_0_iff_dvd)
qed

lemma mod_100_4:
  assumes "(y::int) mod 100 = 0"
  shows "y mod 4 = 0"
proof -
  from assms have "100 dvd y" by (simp add: mod_eq_0_iff_dvd)
  moreover have "(4::int) dvd 100" by simp
  ultimately have "4 dvd y" using dvd_trans by blast
  then show ?thesis by (simp add: mod_eq_0_iff_dvd)
qed

lemma days_before_year_step:
  "days_before_year (y + 1) = days_before_year y + (if is_leap y then 366 else 365)"
proof -
  define p4 where "p4 = (y mod 4 = 0)"
  define p100 where "p100 = (y mod 100 = 0)"
  define p400 where "p400 = (y mod 400 = 0)"
  define q4 where "q4 = (y - 1) div 4"
  define q100 where "q100 = (y - 1) div 100"
  define q400 where "q400 = (y - 1) div 400"
  have d4: "y div 4 = q4 + (if p4 then 1 else 0)"
    unfolding q4_def p4_def by (rule div_step) simp
  have d100: "y div 100 = q100 + (if p100 then 1 else 0)"
    unfolding q100_def p100_def by (rule div_step) simp
  have d400: "y div 400 = q400 + (if p400 then 1 else 0)"
    unfolding q400_def p400_def by (rule div_step) simp
  have imp1: "p400 \<longrightarrow> p100"
    unfolding p400_def p100_def by (rule impI) (rule mod_400_100)
  have imp2: "p100 \<longrightarrow> p4"
    unfolding p100_def p4_def by (rule impI) (rule mod_100_4)
  have leap: "is_leap y = ((p4 \<and> \<not> p100) \<or> p400)"
    unfolding is_leap_def p4_def p100_def p400_def by (rule refl)
  have next_year: "days_before_year (y + 1) = 365 * y + y div 4 - y div 100 + y div 400"
    unfolding days_before_year_def by simp
  have this_year: "days_before_year y = 365 * y - 365 + q4 - q100 + q400"
    unfolding days_before_year_def q4_def q100_def q400_def by (simp add: algebra_simps)
  show ?thesis
    unfolding next_year this_year d4 d100 d400 leap
    using imp1 imp2 by (cases p4; cases p100; cases p400) simp_all
qed

lemma days_before_month_Suc:
  "1 \<le> m \<Longrightarrow> days_before_month y (m + 1) = days_before_month y m + days_in_month y m"
  by (simp add: days_before_month_def upto_rec2)

lemma days_before_month_13:
  "days_before_month y 13 = (if is_leap y then 366 else 365)"
  by (simp add: days_before_month_def upto_rec1 days_in_month_def)

lemma valid_prev_day: "valid_date d \<Longrightarrow> valid_date (prev_day d)"
  by (auto simp: valid_date_def prev_day_def days_in_month_def)

lemma day_number_prev_day:
  assumes "valid_date d"
  shows "day_number (prev_day d) = day_number d - 1"
proof -
  consider "1 < day d" | "day d = 1" "1 < month d" | "day d = 1" "month d = 1"
    using assms unfolding valid_date_def by linarith
  then show ?thesis
  proof cases
    case 1
    then show ?thesis by (simp add: prev_day_def day_number_def)
  next
    case 2
    then have "days_before_month (year d) (month d - 1 + 1) =
                 days_before_month (year d) (month d - 1) + days_in_month (year d) (month d - 1)"
      by (intro days_before_month_Suc) simp
    with 2 show ?thesis by (simp add: prev_day_def day_number_def)
  next
    case 3
    have "days_before_year (year d - 1 + 1) =
            days_before_year (year d - 1) + (if is_leap (year d - 1) then 366 else 365)"
      by (rule days_before_year_step)
    moreover have "days_before_month (year d) 1 = 0"
      by (simp add: days_before_month_def)
    moreover have "days_before_month (year d - 1) 12 + 31 = days_before_month (year d - 1) 13"
      using days_before_month_Suc [of 12 "year d - 1"] by (simp add: days_in_month_def)
    ultimately show ?thesis
      using 3 by (simp add: prev_day_def day_number_def days_before_month_13)
  qed
qed

lemma day_number_sub_days:
  "valid_date d \<Longrightarrow> day_number (sub_days n d) = day_number d - int n \<and> valid_date (sub_days n d)"
  by (induction n arbitrary: d) (simp_all add: day_number_prev_day valid_prev_day)


lemma days_before_month_leap:
  assumes "1 \<le> m" "m \<le> 12"
  shows "days_before_month y m =
           days_before_month 1 m + (if 3 \<le> m \<and> is_leap y then 1 else 0)"
proof -
  from assms have "m = 1 \<or> m = 2 \<or> m = 3 \<or> m = 4 \<or> m = 5 \<or> m = 6 \<or> m = 7 \<or> m = 8 \<or>
                   m = 9 \<or> m = 10 \<or> m = 11 \<or> m = 12"
    by arith
  then show ?thesis
    by (auto simp: days_before_month_def upto_rec1 days_in_month_def is_leap_def)
qed

lemma sub_year_day_number:
  assumes "valid_date now"
  shows "day_number now - day_number (sub_year now) \<in> {365, 366}"
proof -
  have step: "days_before_year (year now - 1 + 1) =
          days_before_year (year now - 1) + (if is_leap (year now - 1) then 366 else 365)"
    by (rule days_before_year_step)
  from assms have m: "1 \<le> month now" "month now \<le> 12"
    by (simp_all add: valid_date_def)
  show ?thesis
  proof (cases "month now = 2 \<and> day now = 29 \<and> \<not> is_leap (year now - 1)")
    case True
    then have "sub_year now = \<lparr>year = year now - 1, month = 3, day = 1\<rparr>"
      by (simp add: sub_year_def)
    moreover have "days_before_month (year now - 1) 3 = 59"
      using True by (simp add: days_before_month_def upto_rec1 days_in_month_def)
    moreover have "days_before_month (year now) 2 = 31"
      by (simp add: days_before_month_def upto_rec1 days_in_month_def)
    ultimately show ?thesis
      using True step by (simp add: day_number_def)
  next
    case False
    then have eq: "sub_year now = now\<lparr>year := year now - 1\<rparr>"
      by (simp add: sub_year_def)
    have "days_before_month (year now) (month now) - days_before_month (year now - 1) (month now)
          = (if 3 \<le> month now \<and> is_leap (year now) then 1 else 0)
            - (if 3 \<le> month now \<and> is_leap (year now - 1) then 1 else 0)"
      using days_before_month_leap [OF m, of "year now"]
            days_before_month_leap [OF m, of "year now - 1"] by simp
    then show ?thesis
      using step by (simp add: eq day_number_def split: if_splits)
  qed
qed

lemma sample_dates_valid: "valid_date (mk_date 2023 6 1)" "valid_date (mk_date 2025 1 1)"
  by (simp_all add: valid_date_def mk_date_def days_in_month_def)

lemma day_number_2023_06_01: "day_number (mk_date 2023 6 1) - day_number (mk_date 2022 6 1) = 365"
  by (simp add: day_number_def mk_date_def days_before_year_def days_before_month_def
      upto_rec1 days_in_month_def is_leap_def)

lemma day_number_2025_01_01: "day_number (mk_date 2025 1 1) - day_number (mk_date 2024 1 1) = 366"
  by (simp add: day_number_def mk_date_def days_before_year_def days_before_month_def
      upto_rec1 days_in_month_def is_leap_def)

subsection \<open>The date range\<close>

lemma http_build_query_3:
  "http_build_query [(k1, v1), (k2, v2), (k3, v3)] =
     k1 @ ''='' @ v1 @ ''&'' @ k2 @ ''='' @ v2 @ ''&'' @ k3 @ ''='' @ v3"
  by (simp add: http_build_query_def)

lemma string_of_nat_2024: "string_of_nat 2024 = ''2024''"
  by (simp add: string_of_nat.simps [of 2024] string_of_nat.simps [of 202]
      string_of_nat.simps [of 20] string_of_nat_digit digit_def)

text \<open>
  Claim C3, as stated, fails for the keyword \<^verbatim>\<open>year\<close>: no fixed number of days gives the start
  of the range for every day the request can arrive on (a year back is 365 days from
  1 June 2023 and 366 days from 1 January 2025).
\<close>

theorem year_range_no_fixed_offset:
  "\<not> (\<exists>n. \<forall>now. valid_date now \<longrightarrow> date_range ''year'' now = (sub_days n now, now))"
proof
  assume "\<exists>n. \<forall>now. valid_date now \<longrightarrow> date_range ''year'' now = (sub_days n now, now)"
  then obtain n where n: "\<And>now. valid_date now \<Longrightarrow> sub_year now = sub_days n now"
    by (auto simp: date_range_def)
  have "sub_year (mk_date 2023 6 1) = mk_date 2022 6 1"
    by (simp add: sub_year_def mk_date_def)
  with n [OF sample_dates_valid(1)] have "day_number (mk_date 2022 6 1) = day_number (mk_date 2023 6 1) - int n"
    using day_number_sub_days [OF sample_dates_valid(1), of n] by simp
  with day_number_2023_06_01 have a: "int n = 365" by simp
  have "sub_year (mk_date 2025 1 1) = mk_date 2024 1 1"
    by (simp add: sub_year_def mk_date_def)
  with n [OF sample_dates_valid(2)] have "day_number (mk_date 2024 1 1) = day_number (mk_date 2025 1 1) - int n"
    using day_number_sub_days [OF sample_dates_valid(2), of n] by simp
  with day_number_2025_01_01 have "int n = 366" by simp
  with a show False by simp
qed

text \<open>
  Claim C3, amended. The end of the range is today. Its start is 1 day before today for
  \<^verbatim>\<open>day\<close>, 7 days for \<^verbatim>\<open>week\<close> and 30 days for \<^verbatim>\<open>month\<close>; for \<^verbatim>\<open>year\<close> it is the same day
  of the year before (1 March for 29 February), which is 365 or 366 days before today.
  Both dates go into the upstream URL as \<^verbatim>\<open>dateFrom\<close> and \<^verbatim>\<open>dateTo\<close>.
\<close>

theorem date_range_by_period:
  "date_range ''day'' now = (sub_days 1 now, now)
   \<and> date_range ''week'' now = (sub_days 7 now, now)
   \<and> date_range ''month'' now = (sub_days 30 now, now)
   \<and> date_range ''year'' now = (sub_year now, now)
   \<and> (valid_date now \<longrightarrow>
        day_number now - day_number (sub_days n now) = int n
        \<and> day_number now - day_number (sub_year now) \<in> {365, 366})
   \<and> CURLOPT_URL (consumption_request apiKey meterId period now) =
        API_CONSUMPTION_URL @ ''/'' @ meterId
        @ ''?dateFrom='' @ format_date (fst (date_range period now))
        @ ''&dateTo='' @ format_date (snd (date_range period now)) @ ''&granularity=DAY''"
proof -
  have url: "CURLOPT_URL (consumption_request apiKey meterId period now) =
        API_CONSUMPTION_URL @ ''/'' @ meterId
        @ ''?dateFrom='' @ format_date (fst (date_range period now))
        @ ''&dateTo='' @ format_date (snd (date_range period now)) @ ''&granularity=DAY''"
    by (simp add: consumption_request_def http_build_query_3 split_beta)
  have offs: "day_number now - day_number (sub_days n now) = int n
        \<and> day_number now - day_number (sub_year now) \<in> {365, 366}" if "valid_date now"
    using day_number_sub_days [OF that, of n] sub_year_day_number [OF that] by simp
  have "date_range ''day'' now = (sub_days 1 now, now)"
       "date_range ''week'' now = (sub_days 7 now, now)"
       "date_range ''month'' now = (sub_days 30 now, now)"
       "date_range ''year'' now = (sub_year now, now)"
    by (simp_all add: date_range_def)
  with url offs show ?thesis by blast
qed

theorem date_range_by_period_witness:
  "valid_date (mk_date 2024 2 29)
   \<and> date_range ''year'' (mk_date 2024 2 29) = (mk_date 2023 3 1, mk_date 2024 2 29)
   \<and> day_number (mk_date 2024 2 29) - day_number (sub_year (mk_date 2024 2 29)) \<in> {365, 366}
   \<and> date_range ''week'' (mk_date 2024 3 3) = (mk_date 2024 2 25, mk_date 2024 3 3)
   \<and> CURLOPT_URL (consumption_request ''key'' ''AT001'' ''week'' (mk_date 2024 3 3)) =
        ''https://api.wstw.at/gateway/WN_SMART_METER_API/1.0/zaehlpunkte/messwerte/AT001''
        @ ''?dateFrom=2024-02-25&dateTo=2024-03-03&granularity=DAY''"
proof -
  have valid: "valid_date (mk_date 2024 2 29)"
    by (simp add: valid_date_def mk_date_def days_in_month_def is_leap_def)
  have week: "sub_days 7 (mk_date 2024 3 3) = mk_date 2024 2 25"
    by (simp add: eval_nat_numeral mk_date_def prev_day_def days_in_month_def is_leap_def)
  have year: "sub_year (mk_date 2024 2 29) = mk_date 2023 3 1"
    by (simp add: sub_year_def mk_date_def is_leap_def)
  have fmt: "format_date (mk_date 2024 2 25) = ''2024-02-25''"
            "format_date (mk_date 2024 3 3) = ''2024-03-03''"
    by (simp_all add: format_date_def mk_date_def pad_def string_of_nat_2024
        string_of_nat.simps [of 25] string_of_nat_digit digit_def)
  from date_range_by_period [of "mk_date 2024 2 29" 0 "''key''" "''AT001''" "''week''"]
       date_range_by_period [of "mk_date 2024 3 3" 0 "''key''" "''AT001''" "''week''"]
       valid week year fmt
  show ?thesis
    by (simp add: API_CONSUMPTION_URL_def)
qed

subsection \<open>Replies that are printed\<close>

lemma json_encodable_error:
  "json_encodable (PArray [(StrKey ''success'', PBool False), (StrKey ''error'', PString message)])
     = valid_utf8 message"
  by (simp add: json_encodable_def)

lemma json_encodable_success:
  "json_encodable (PArray [(StrKey ''success'', PBool True), (StrKey ''data'', d)])
     = encodable 511 d"
  by (simp add: json_encodable_def)

lemma error_printed:
  "valid_utf8 message \<Longrightarrow> error message code = error_reply message code"
  by (simp add: error_def error_reply_def echo_json_encode_def json_encodable_error)

lemma error_not_printed:
  "\<not> valid_utf8 message \<Longrightarrow>
     error message code = \<lparr>http_response_code = code, echo = NoOutput\<rparr>"
  by (simp add: error_def echo_json_encode_def json_encodable_error)

lemma success_printed:
  "encodable 511 d \<Longrightarrow> success d = success_reply d"
  by (simp add: success_def success_reply_def echo_json_encode_def json_encodable_success)

lemma success_not_printed:
  "\<not> encodable 511 d \<Longrightarrow> success d = \<lparr>http_response_code = 200, echo = NoOutput\<rparr>"
  by (simp add: success_def echo_json_encode_def json_encodable_success)

text \<open>The messages the script writes itself are well-formed UTF-8.\<close>

lemma constant_messages_valid:
  "valid_utf8 ''API Key required''"
  "valid_utf8 (''Z'' @ auml @ ''hlpunktnummer (meterId) is required'')"
  "valid_utf8 (''Z'' @ auml @ ''hlpunkt nicht gefunden'')"
  "valid_utf8 ''Invalid JSON response''"
  "valid_utf8 ''Unauthorized: Invalid API Key''"
  "valid_utf8 ''Invalid action''"
  "valid_utf8 ''API Key required. Get one from https://api-portal.wienerstadtwerke.at''"
  "valid_utf8 ''API Key configured''"
  "valid_utf8 ''Logged out successfully''"
  "valid_utf8 ''Diese Woche''"
  "valid_utf8 ''kWh''"
  by (simp_all add: auml_def second_byte_def continuation_def)

subsection \<open>Consumption requests that fail\<close>

lemma getConsumption_unfold:
  "getConsumption e req =
     (if empty_string (request_apiKey req) then error ''API Key required'' 401
      else if empty_string (request_meterId req)
        then error (''Z'' @ auml @ ''hlpunktnummer (meterId) is required'') 400
      else if \<not> empty_string (curlError (upstream_result e req))
        then error (''Connection error: '' @ curlError (upstream_result e req)) 500
      else if httpCode (upstream_result e req) = 200
        then (case json_decode e (response (upstream_result e req)) of
                None \<Rightarrow> error ''Invalid JSON response'' 500
              | Some d \<Rightarrow> success (consumption_data (round2 e (total_consumption e d)) d))
      else if httpCode (upstream_result e req) = 401
        then error ''Unauthorized: Invalid API Key'' 401
      else if httpCode (upstream_result e req) = 404
        then error (''Z'' @ auml @ ''hlpunkt nicht gefunden'') 404
      else error (''API error: HTTP '' @ string_of_int (httpCode (upstream_result e req)) @ '' - ''
                  @ take 200 (response (upstream_result e req)))
             (httpCode (upstream_result e req)))"
  unfolding getConsumption_def request_apiKey_def request_meterId_def request_period_def
    upstream_result_def consumption_data_def Let_def
  by (rule refl)

text \<open>
  Claim C2, as stated, fails where both the key and the meter identifier are empty: the key
  is tested first, so the reply has status 401 and not 400. The request below is the one
  \<^verbatim>\<open>fetchSmartMeterViaProxy\<close> sends for credentials without a meter identifier.
\<close>

theorem getConsumption_empty_meter_401:
  "empty_string (request_meterId (get_request [(''action'', ''getConsumption''),
                                               (''period'', ''week''), (''meterId'', [])]))
   \<and> http_response_code
        (fst (relay (sample_env 404 ''Not Found'' PNull)
                (get_request [(''action'', ''getConsumption''), (''period'', ''week''),
                              (''meterId'', [])])
                sample_server)) = 401"
  by (simp add: relay_def handleRequest_def getConsumption_unfold get_request_def coalesce_def
      request_meterId_def request_apiKey_def empty_string_def error_def)

text \<open>
  Claim C2, amended. A consumption request with an empty key gets an error of status 401;
  with a key and an empty meter identifier, an error of status 400; with both, no curl
  error and the upstream status 404, the meter-not-found error of status 404. Empty is
  PHP's \<^verbatim>\<open>empty\<close>: the field is absent, the empty string, or the string \<^verbatim>\<open>0\<close>. The script's
  reply to a request of action \<^verbatim>\<open>getConsumption\<close> is the one of \<^verbatim>\<open>getConsumption\<close>. Each of the
  three errors is printed: its body is the JSON object with \<^verbatim>\<open>success\<close> false and the message.
\<close>

theorem getConsumption_error_statuses:
  "(empty_string (request_apiKey req) \<longrightarrow>
      getConsumption e req = error ''API Key required'' 401)
   \<and> (\<not> empty_string (request_apiKey req) \<and> empty_string (request_meterId req) \<longrightarrow>
      getConsumption e req = error (''Z'' @ auml @ ''hlpunktnummer (meterId) is required'') 400)
   \<and> (\<not> empty_string (request_apiKey req) \<and> \<not> empty_string (request_meterId req) \<and>
      empty_string (curlError (upstream_result e req)) \<and> httpCode (upstream_result e req) = 404 \<longrightarrow>
      getConsumption e req = error (''Z'' @ auml @ ''hlpunkt nicht gefunden'') 404)
   \<and> http_response_code (error message code) = code
   \<and> (REQUEST_METHOD req \<noteq> ''OPTIONS'' \<and>
      coalesce (POST req ''action'') (GET req ''action'') [] = ''getConsumption'' \<longrightarrow>
      fst (relay e req st) = getConsumption e req)
   \<and> error ''API Key required'' 401 = error_reply ''API Key required'' 401
   \<and> error (''Z'' @ auml @ ''hlpunktnummer (meterId) is required'') 400
       = error_reply (''Z'' @ auml @ ''hlpunktnummer (meterId) is required'') 400
   \<and> error (''Z'' @ auml @ ''hlpunkt nicht gefunden'') 404
       = error_reply (''Z'' @ auml @ ''hlpunkt nicht gefunden'') 404"
  by (intro conjI error_printed constant_messages_valid)
     (simp_all add: getConsumption_unfold relay_def handleRequest_def error_def)

theorem getConsumption_error_statuses_witness:
  "empty_string (request_apiKey (post_request [(''action'', ''getConsumption''), (''meterId'', ''AT001'')]))
   \<and> http_response_code (getConsumption (sample_env 404 ''Not Found'' PNull)
        (post_request [(''action'', ''getConsumption''), (''meterId'', ''AT001'')])) = 401
   \<and> \<not> empty_string (request_apiKey (post_request [(''action'', ''getConsumption''), (''password'', ''key'')]))
   \<and> empty_string (request_meterId (post_request [(''action'', ''getConsumption''), (''password'', ''key'')]))
   \<and> http_response_code (getConsumption (sample_env 404 ''Not Found'' PNull)
        (post_request [(''action'', ''getConsumption''), (''password'', ''key'')])) = 400
   \<and> \<not> empty_string (request_meterId
          (post_request [(''action'', ''getConsumption''), (''password'', ''key''), (''meterId'', ''AT001'')]))
   \<and> httpCode (upstream_result (sample_env 404 ''Not Found'' PNull)
          (post_request [(''action'', ''getConsumption''), (''password'', ''key''), (''meterId'', ''AT001'')])) = 404
   \<and> fst (relay (sample_env 404 ''Not Found'' PNull)
          (post_request [(''action'', ''getConsumption''), (''password'', ''key''), (''meterId'', ''AT001'')])
          sample_server) =
       \<lparr>http_response_code = 404,
        echo = JsonEncode (PArray [(StrKey ''success'', PBool False),
                 (StrKey ''error'', PString (''Z'' @ auml @ ''hlpunkt nicht gefunden''))])\<rparr>"
  using getConsumption_error_statuses
          [of "post_request [(''action'', ''getConsumption''), (''meterId'', ''AT001'')]" "sample_env 404 ''Not Found'' PNull"]
        getConsumption_error_statuses
          [of "post_request [(''action'', ''getConsumption''), (''password'', ''key'')]" "sample_env 404 ''Not Found'' PNull"]
        getConsumption_error_statuses
          [of "post_request [(''action'', ''getConsumption''), (''password'', ''key''), (''meterId'', ''AT001'')]"
              "sample_env 404 ''Not Found'' PNull" _ _ sample_server]
  by (simp add: post_request_def request_apiKey_def request_meterId_def coalesce_def
      empty_string_def upstream_result_def sample_env_def error_reply_def)


subsection \<open>The consumption total\<close>

lemma fold_readings:
  "fold (\<lambda>(k, reading) totalConsumption.
             plus_float e totalConsumption
               (floatval e (case isset_at reading a of
                              Some v \<Rightarrow> v
                            | None \<Rightarrow> (case isset_at reading b of
                                          Some v \<Rightarrow> v
                                        | None \<Rightarrow> PInt 0))))
          entries acc
     = foldl (plus_float e) acc (map (reading_value e a b) (map snd entries))"
proof (induction entries arbitrary: acc)
  case Nil
  show ?case by simp
next
  case (Cons entry entries)
  obtain k r where entry: "entry = (k, r)" by (cases entry)
  have "floatval e (case isset_at r a of
                        Some v \<Rightarrow> v
                      | None \<Rightarrow> (case isset_at r b of Some v \<Rightarrow> v | None \<Rightarrow> PInt 0))
          = reading_value e a b r"
    by (simp add: reading_value_def reading_field_def split: option.splits)
  then show ?case
    using Cons.IH by (simp add: entry)
qed

lemma add_readings_php_sum:
  "add_readings e a b entries = php_sum e (map (reading_value e a b) (map snd entries))"
  unfolding add_readings_def php_sum_def by (rule fold_readings)

lemma readings_of_Some:
  "readings_of d k = Some rs \<longleftrightarrow> (\<exists>entries. isset_at d k = Some (PArray entries) \<and> rs = map snd entries)"
  by (auto simp: readings_of_def split: option.splits pval.splits)

lemma readings_of_None:
  "readings_of d k = None \<longleftrightarrow> (\<forall>entries. isset_at d k \<noteq> Some (PArray entries))"
  by (auto simp: readings_of_def split: option.splits pval.splits)

lemma total_consumption_schema:
  assumes "recognized_schema d = Some (a, b, rs)"
  shows "total_consumption e d = php_sum e (map (reading_value e a b) rs)"
proof (cases "readings_of d ''values''")
  case (Some vs)
  with assms(1) have abr: "a = ''value''" "b = ''wert''" "rs = vs"
    by (simp_all add: recognized_schema_def)
  from Some obtain entries where "isset_at d ''values'' = Some (PArray entries)" "vs = map snd entries"
    by (auto simp: readings_of_Some)
  with abr show ?thesis
    by (simp add: total_consumption_def add_readings_php_sum)
next
  case None
  then have no_values: "\<And>entries. isset_at d ''values'' \<noteq> Some (PArray entries)"
    by (simp add: readings_of_None)
  have skip: "total_consumption e d =
      (case isset_at d ''messwerte'' of
           Some (PArray entries) \<Rightarrow> add_readings e ''wert'' ''value'' entries
         | _ \<Rightarrow>
           (case isset_at d ''data'' of
              Some (PArray entries) \<Rightarrow> add_readings e ''consumption'' ''verbrauch'' entries
            | _ \<Rightarrow> IntTotal 0))"
    using no_values by (simp add: total_consumption_def split: option.splits pval.splits)
  show ?thesis
  proof (cases "readings_of d ''messwerte''")
    case (Some ms)
    with None assms(1) have abr: "a = ''wert''" "b = ''value''" "rs = ms"
      by (simp_all add: recognized_schema_def)
    from Some obtain entries where "isset_at d ''messwerte'' = Some (PArray entries)" "ms = map snd entries"
      by (auto simp: readings_of_Some)
    with abr show ?thesis
      by (simp add: skip add_readings_php_sum)
  next
    case none_m: None
    then have no_m: "\<And>entries. isset_at d ''messwerte'' \<noteq> Some (PArray entries)"
      by (simp add: readings_of_None)
    have skip2: "total_consumption e d =
           (case isset_at d ''data'' of
              Some (PArray entries) \<Rightarrow> add_readings e ''consumption'' ''verbrauch'' entries
            | _ \<Rightarrow> IntTotal 0)"
      using no_m by (simp add: skip split: option.splits pval.splits)
    from None none_m assms(1) obtain ds where ds: "readings_of d ''data'' = Some ds"
      and abr: "a = ''consumption''" "b = ''verbrauch''" "rs = ds"
      by (auto simp: recognized_schema_def split: option.splits)
    from ds obtain entries where "isset_at d ''data'' = Some (PArray entries)" "ds = map snd entries"
      by (auto simp: readings_of_Some)
    with abr show ?thesis
      by (simp add: skip2 add_readings_php_sum)
  qed
qed

text \<open>A total whose additions are all exact is the sum of the numbers added.\<close>

lemma exact_additions_foldl:
  "exact_additions e acc xs \<Longrightarrow>
   foldl (plus_float e) (FloatTotal (Finite acc)) xs
     = FloatTotal (Finite (acc + sum_list (map finite_value xs)))"
  by (induction e acc xs rule: exact_additions.induct) (simp_all add: add.assoc)

lemma exact_additions_php_sum:
  assumes "float_of_int e 0 = Finite 0" and "exact_additions e 0 xs"
  shows "php_sum e xs =
           (if xs = [] then IntTotal 0 else FloatTotal (Finite (sum_list (map finite_value xs))))"
proof (cases xs)
  case Nil
  then show ?thesis by (simp add: php_sum_def)
next
  case (Cons x ys)
  have "php_sum e xs = foldl (plus_float e) (FloatTotal (Finite 0)) xs"
    by (simp add: php_sum_def Cons assms(1))
  with exact_additions_foldl [OF assms(2)] Cons show ?thesis
    by simp
qed

lemma consumption_data_encodable:
  "encodable 511 (consumption_data kWh d) = (is_finite kWh \<and> encodable 510 d)"
  by (simp add: consumption_data_def constant_messages_valid)

lemma exact_readings_values:
  "list_all (exact_reading e a b) rs \<Longrightarrow>
   map (finite_value \<circ> reading_value e a b) rs = map (amount a b) rs"
  by (induction rs) (simp_all add: exact_reading_def)

lemma sample_upstream:
  "upstream_result (sample_env code body payload) req =
     \<lparr>response = body, httpCode = code, curlError = []\<rparr>"
  "json_decode (sample_env code body payload) body = Some payload"
  by (simp_all add: upstream_result_def sample_env_def)

lemma sample_request_fields:
  "\<not> empty_string (request_apiKey sample_request)"
  "\<not> empty_string (request_meterId sample_request)"
  by (simp_all add: sample_request_def post_request_def request_apiKey_def request_meterId_def
      coalesce_def empty_string_def)

lemma sample_schema:
  "recognized_schema sample_payload =
     Some (''wert'', ''value'',
           [PArray [(StrKey ''wert'', PFloat (Finite (1 / 8)))],
            PArray [(StrKey ''value'', PInt 3)],
            PArray [(StrKey ''zeit'', PString ''2024-05-01'')]])"
  by (simp add: recognized_schema_def readings_of_def isset_at_def sample_payload_def)

lemma boolean_schema:
  "recognized_schema boolean_payload =
     Some (''value'', ''wert'',
           [PArray [(StrKey ''value'', PBool True)],
            PArray [(StrKey ''value'', PInt 2)]])"
  by (simp add: recognized_schema_def readings_of_def isset_at_def boolean_payload_def)

text \<open>
  Claim C1, as stated, fails on a reading whose amount is not a number: \<^verbatim>\<open>floatval\<close> turns it
  into one, and that is added. For the payload \<^verbatim>\<open>{"values":[{"value":true},{"value":2}]}\<close> the
  numeric readings sum to 2, and \<^verbatim>\<open>weeklyConsumption\<close> is 3. (All the numbers here are small
  integers, on which doubles are exact.)
\<close>

theorem getConsumption_counts_true_as_one:
  "httpCode (upstream_result (sample_env 200 ''BODY'' boolean_payload) sample_request) = 200
   \<and> json_decode (sample_env 200 ''BODY'' boolean_payload)
         (response (upstream_result (sample_env 200 ''BODY'' boolean_payload) sample_request))
       = Some boolean_payload
   \<and> recognized_schema boolean_payload =
       Some (''value'', ''wert'',
             [PArray [(StrKey ''value'', PBool True)], PArray [(StrKey ''value'', PInt 2)]])
   \<and> map (amount ''value'' ''wert'')
         [PArray [(StrKey ''value'', PBool True)], PArray [(StrKey ''value'', PInt 2)]] = [0, 2]
   \<and> getConsumption (sample_env 200 ''BODY'' boolean_payload) sample_request =
       success_reply (consumption_data (Finite 3) boolean_payload)"
proof -
  have total: "total_consumption (sample_env 200 ''BODY'' boolean_payload) boolean_payload
                 = FloatTotal (Finite 3)"
    by (simp add: total_consumption_schema [OF boolean_schema] php_sum_def reading_value_def
        reading_field_def isset_at_def floatval_def sample_env_def)
  have round: "round2 (sample_env 200 ''BODY'' boolean_payload) (FloatTotal (Finite 3)) = Finite 3"
    using floor_divide_of_int_eq [of 601 2, where ?'a = rat] by (simp add: sample_env_def)
  have enc: "encodable 511 (consumption_data (Finite 3) boolean_payload)"
    by (simp add: consumption_data_encodable)
       (simp add: boolean_payload_def constant_messages_valid)
  have "getConsumption (sample_env 200 ''BODY'' boolean_payload) sample_request =
          success (consumption_data (Finite 3) boolean_payload)"
    using empty_string_def [of "[]"]
    by (simp add: getConsumption_unfold sample_request_fields sample_upstream total round
        del: round2.simps)
  then have reply: "getConsumption (sample_env 200 ''BODY'' boolean_payload) sample_request =
          success_reply (consumption_data (Finite 3) boolean_payload)"
    by (simp add: success_printed [OF enc])
  have amounts: "map (amount ''value'' ''wert'')
         [PArray [(StrKey ''value'', PBool True)], PArray [(StrKey ''value'', PInt 2)]] = [0, 2]"
    by (simp add: amount_def reading_field_def isset_at_def)
  show ?thesis
    by (intro conjI reply amounts boolean_schema) (simp_all add: sample_upstream)
qed

text \<open>
  Claim C1, amended. Take a consumption request that reaches the upstream service (key and
  meter identifier not empty) and is answered without a curl error, with status 200 and a
  body that decodes to a payload with one of the three schemas. Then the total is PHP's
  float sum, taken in the order of the readings from the integer 0, of \<^verbatim>\<open>floatval\<close> of each
  reading's amount field (the first of the schema's two fields that is there), a reading
  without an amount field adding \<^verbatim>\<open>floatval(0)\<close>; the reply has status 200 and is \<^verbatim>\<open>success\<close> of
  \<^verbatim>\<open>weeklyConsumption\<close>, which is \<^verbatim>\<open>round\<close> of the total to two decimals, and of \<^verbatim>\<open>rawData\<close>,
  which is the payload; and its body is that JSON object when the rounded total is finite
  and the payload can be encoded. Where the float of 0 is 0, every reading adds the number
  it carries and every addition is exact, \<^verbatim>\<open>weeklyConsumption\<close> is \<^verbatim>\<open>round\<close> of the arithmetic sum
  of the readings' numbers (0 when there is no reading).
\<close>

theorem getConsumption_float_sum:
  assumes "\<not> empty_string (request_apiKey req)"
    and "\<not> empty_string (request_meterId req)"
    and "empty_string (curlError (upstream_result e req))"
    and "httpCode (upstream_result e req) = 200"
    and "json_decode e (response (upstream_result e req)) = Some d"
    and "recognized_schema d = Some (a, b, rs)"
  shows "total_consumption e d = php_sum e (map (reading_value e a b) rs)
     \<and> getConsumption e req =
         success (consumption_data (round2 e (php_sum e (map (reading_value e a b) rs))) d)
     \<and> http_response_code (getConsumption e req) = 200
     \<and> (is_finite (round2 e (php_sum e (map (reading_value e a b) rs))) \<and> encodable 510 d \<longrightarrow>
          getConsumption e req =
            success_reply (consumption_data (round2 e (php_sum e (map (reading_value e a b) rs))) d))
     \<and> (float_of_int e 0 = Finite 0 \<and> list_all (exact_reading e a b) rs
          \<and> exact_additions e 0 (map (reading_value e a b) rs) \<longrightarrow>
          round2 e (php_sum e (map (reading_value e a b) rs)) =
            (if rs = [] then Finite 0
             else float_round e (Finite (sum_list (map (amount a b) rs)))))"
proof -
  let ?total = "php_sum e (map (reading_value e a b) rs)"
  have total: "total_consumption e d = ?total"
    using assms(6) by (rule total_consumption_schema)
  have reply: "getConsumption e req = success (consumption_data (round2 e ?total) d)"
    using assms(1-5) by (simp add: getConsumption_unfold total)
  have status: "http_response_code (getConsumption e req) = 200"
    by (simp add: reply success_def)
  have printed: "is_finite (round2 e ?total) \<and> encodable 510 d \<longrightarrow>
          getConsumption e req = success_reply (consumption_data (round2 e ?total) d)"
    by (simp add: reply success_printed consumption_data_encodable)
  have exact: "float_of_int e 0 = Finite 0 \<and> list_all (exact_reading e a b) rs
          \<and> exact_additions e 0 (map (reading_value e a b) rs) \<longrightarrow>
          round2 e ?total =
            (if rs = [] then Finite 0
             else float_round e (Finite (sum_list (map (amount a b) rs))))"
  proof (intro impI, elim conjE)
    assume zero: "float_of_int e 0 = Finite 0"
      and readings: "list_all (exact_reading e a b) rs"
      and additions: "exact_additions e 0 (map (reading_value e a b) rs)"
    show "round2 e ?total =
            (if rs = [] then Finite 0
             else float_round e (Finite (sum_list (map (amount a b) rs))))"
      by (simp add: exact_additions_php_sum [OF zero additions]
          exact_readings_values [OF readings] zero)
  qed
  from total reply status printed exact show ?thesis
    by - (intro conjI; assumption)
qed

theorem getConsumption_float_sum_witness:
  "\<not> empty_string (request_apiKey sample_request)
   \<and> \<not> empty_string (request_meterId sample_request)
   \<and> httpCode (upstream_result (sample_env 200 ''BODY'' sample_payload) sample_request) = 200
   \<and> json_decode (sample_env 200 ''BODY'' sample_payload)
         (response (upstream_result (sample_env 200 ''BODY'' sample_payload) sample_request))
       = Some sample_payload
   \<and> recognized_schema sample_payload =
       Some (''wert'', ''value'',
           [PArray [(StrKey ''wert'', PFloat (Finite (1 / 8)))],
            PArray [(StrKey ''value'', PInt 3)],
            PArray [(StrKey ''zeit'', PString ''2024-05-01'')]])
   \<and> map (amount ''wert'' ''value'')
           [PArray [(StrKey ''wert'', PFloat (Finite (1 / 8)))],
            PArray [(StrKey ''value'', PInt 3)],
            PArray [(StrKey ''zeit'', PString ''2024-05-01'')]] = [1 / 8, 3, 0]
   \<and> list_all (exact_reading (sample_env 200 ''BODY'' sample_payload) ''wert'' ''value'')
           [PArray [(StrKey ''wert'', PFloat (Finite (1 / 8)))],
            PArray [(StrKey ''value'', PInt 3)],
            PArray [(StrKey ''zeit'', PString ''2024-05-01'')]]
   \<and> exact_additions (sample_env 200 ''BODY'' sample_payload) 0
         (map (reading_value (sample_env 200 ''BODY'' sample_payload) ''wert'' ''value'')
           [PArray [(StrKey ''wert'', PFloat (Finite (1 / 8)))],
            PArray [(StrKey ''value'', PInt 3)],
            PArray [(StrKey ''zeit'', PString ''2024-05-01'')]])
   \<and> total_consumption (sample_env 200 ''BODY'' sample_payload) sample_payload
       = FloatTotal (Finite (25 / 8))
   \<and> getConsumption (sample_env 200 ''BODY'' sample_payload) sample_request =
       success_reply (consumption_data (Finite (313 / 100)) sample_payload)"
proof -
  let ?e = "sample_env 200 ''BODY'' sample_payload"
  let ?rs = "[PArray [(StrKey ''wert'', PFloat (Finite (1 / 8)))],
            PArray [(StrKey ''value'', PInt 3)],
            PArray [(StrKey ''zeit'', PString ''2024-05-01'')]]"
  have err: "empty_string (curlError (upstream_result ?e sample_request))"
    and code: "httpCode (upstream_result ?e sample_request) = 200"
    and body: "json_decode ?e (response (upstream_result ?e sample_request)) = Some sample_payload"
    by (simp_all add: sample_upstream empty_string_def)
  have floats: "map (reading_value ?e ''wert'' ''value'') ?rs = [Finite (1 / 8), Finite 3, Finite 0]"
    by (simp add: reading_value_def reading_field_def isset_at_def floatval_def sample_env_def)
  have amounts: "map (amount ''wert'' ''value'') ?rs = [1 / 8, 3, 0]"
    by (simp add: amount_def reading_field_def isset_at_def)
  have sum: "php_sum ?e (map (reading_value ?e ''wert'' ''value'') ?rs) = FloatTotal (Finite (25 / 8))"
    unfolding floats by (simp add: php_sum_def sample_env_def)
  have round: "round2 ?e (FloatTotal (Finite (25 / 8))) = Finite (313 / 100)"
    by (simp add: sample_env_def)
  have enc: "encodable 510 sample_payload"
    by (simp add: sample_payload_def)
  have exact: "list_all (exact_reading ?e ''wert'' ''value'') ?rs"
    "exact_additions ?e 0 (map (reading_value ?e ''wert'' ''value'') ?rs)"
    unfolding floats
    by (simp_all add: exact_reading_def reading_value_def reading_field_def isset_at_def
        floatval_def amount_def sample_env_def)
  note inst = getConsumption_float_sum
    [OF sample_request_fields err code body sample_schema, unfolded sum round]
  have total: "total_consumption ?e sample_payload = FloatTotal (Finite (25 / 8))"
    by (rule inst [THEN conjunct1])
  have "is_finite (Finite (313 / 100)) \<and> encodable 510 sample_payload \<longrightarrow>
      getConsumption ?e sample_request =
        success_reply (consumption_data (Finite (313 / 100)) sample_payload)"
    by (rule inst [THEN conjunct2, THEN conjunct2, THEN conjunct2, THEN conjunct1])
  with enc have reply: "getConsumption ?e sample_request =
        success_reply (consumption_data (Finite (313 / 100)) sample_payload)"
    by simp
  show ?thesis
    by (intro conjI sample_request_fields code body sample_schema amounts exact total reply)
qed

subsection \<open>The shape of every reply\<close>

lemma shaped_success_reply: "success_shaped (echo (success_reply d))"
  by (simp add: success_shaped_def success_reply_def)

lemma shaped_error_reply: "success_shaped (echo (error_reply message code))"
  by (simp add: success_shaped_def error_reply_def)

lemma shaped_success: "success_shaped (echo (success d)) = encodable 511 d"
proof (cases "encodable 511 d")
  case True
  then show ?thesis by (simp add: success_printed shaped_success_reply)
next
  case False
  then show ?thesis by (simp add: success_not_printed success_shaped_def)
qed

lemma shaped_error: "success_shaped (echo (error message code)) = valid_utf8 message"
proof (cases "valid_utf8 message")
  case True
  then show ?thesis by (simp add: error_printed shaped_error_reply)
next
  case False
  then show ?thesis by (simp add: error_not_printed success_shaped_def)
qed

lemma printed_success: "echo (success d) \<noteq> NoOutput \<Longrightarrow> success_shaped (echo (success d))"
  by (cases "encodable 511 d") (simp_all add: shaped_success success_not_printed)

lemma printed_error:
  "echo (error message code) \<noteq> NoOutput \<Longrightarrow> success_shaped (echo (error message code))"
  by (cases "valid_utf8 message") (simp_all add: shaped_error error_not_printed)

text \<open>Bytes below \<open>0x80\<close> in front of a string leave it as well-formed as it is.\<close>

lemma valid_utf8_ascii_append:
  "list_all (\<lambda>c. (of_char c :: nat) < 128) p \<Longrightarrow> valid_utf8 (p @ s) = valid_utf8 s"
  by (induction p) simp_all

lemma valid_utf8_auml: "valid_utf8 (auml @ s) = valid_utf8 s"
  by (simp add: auml_def second_byte_def)

lemma string_of_nat_ascii: "list_all (\<lambda>c. (of_char c :: nat) < 128) (string_of_nat n)"
proof (induction n rule: string_of_nat.induct)
  case (1 n)
  show ?case
  proof (cases "n < 10")
    case True
    then show ?thesis
      by (subst string_of_nat.simps) (simp add: of_char_digit)
  next
    case False
    with 1 have "list_all (\<lambda>c. (of_char c :: nat) < 128) (string_of_nat (n div 10))"
      by simp
    moreover have "(of_char (digit (n mod 10)) :: nat) < 128"
      by (simp add: of_char_digit)
    ultimately show ?thesis
      using False by (subst string_of_nat.simps) simp
  qed
qed

lemma string_of_int_ascii: "list_all (\<lambda>c. (of_char c :: nat) < 128) (string_of_int i)"
  by (simp add: string_of_int_def string_of_nat_ascii)

lemma valid_utf8_string_of_int: "valid_utf8 (string_of_int code @ s) = valid_utf8 s"
  by (rule valid_utf8_ascii_append) (rule string_of_int_ascii)

lemma getConsumption_printed:
  "echo (getConsumption e req) \<noteq> NoOutput \<Longrightarrow> success_shaped (echo (getConsumption e req))"
  unfolding getConsumption_unfold
  by (simp add: printed_success printed_error split: if_splits option.splits)

lemma getConsumption_shaped:
  assumes "empty_string (request_apiKey req) \<or> empty_string (request_meterId req)
           \<or> upstream_encodable e req"
  shows "success_shaped (echo (getConsumption e req))"
proof (cases "empty_string (request_apiKey req) \<or> empty_string (request_meterId req)")
  case True
  then show ?thesis
    unfolding getConsumption_unfold
    by (auto simp: shaped_error valid_utf8_auml)
next
  case False
  with assms have "upstream_encodable e req" by simp
  with False show ?thesis
    unfolding getConsumption_unfold upstream_encodable_def
    by (auto simp: shaped_error shaped_success valid_utf8_auml valid_utf8_string_of_int
        consumption_data_encodable split: if_splits option.splits)
qed

lemma handleLogin_shaped: "success_shaped (echo (fst (handleLogin req st)))"
  unfolding handleLogin_def Let_def
  by (simp add: shaped_success shaped_error)

lemma handleLogout_shaped: "success_shaped (echo (fst (handleLogout e st)))"
  unfolding handleLogout_def Let_def by (simp add: shaped_success constant_messages_valid)

lemma invalid_action_shaped: "success_shaped (echo (error ''Invalid action'' 400))"
  by (simp add: shaped_error constant_messages_valid)

text \<open>
  The body can be empty on a request that is no preflight: \<^verbatim>\<open>json_encode\<close> returns \<^verbatim>\<open>false\<close>, and
  \<^verbatim>\<open>echo\<close> prints nothing, for the error of an upstream answer of status 500 whose 200th byte
  is the first byte of a two-byte character, and for the success on a payload with the
  number \<^verbatim>\<open>1e999\<close>.
\<close>

lemma getConsumption_prints_nothing:
  "getConsumption (sample_env 500 cut_body PNull) sample_request
     = \<lparr>http_response_code = 500, echo = NoOutput\<rparr>"
  "getConsumption (sample_env 200 ''BODY'' infinite_payload) sample_request
     = \<lparr>http_response_code = 200, echo = NoOutput\<rparr>"
proof -
  have cut: "take 200 cut_body = replicate 199 (CHR ''a'') @ [CHR 0xC3]"
    by (simp add: cut_body_def auml_def)
  have "valid_utf8 (replicate 199 (CHR ''a'') @ [CHR 0xC3]) = valid_utf8 [CHR 0xC3]"
    by (rule valid_utf8_ascii_append) (simp add: list_all_length)
  then have invalid: "\<not> valid_utf8 (take 200 cut_body)"
    by (simp add: cut)
  have reply: "getConsumption (sample_env 500 cut_body PNull) sample_request
          = error (''API error: HTTP '' @ string_of_int 500 @ '' - '' @ take 200 cut_body) 500"
    using empty_string_def [of "[]"]
    by (simp add: getConsumption_unfold sample_request_fields sample_upstream)
  have message: "\<not> valid_utf8 (''API error: HTTP '' @ string_of_int 500 @ '' - '' @ take 200 cut_body)"
    using invalid by (simp add: valid_utf8_string_of_int)
  show "getConsumption (sample_env 500 cut_body PNull) sample_request
     = \<lparr>http_response_code = 500, echo = NoOutput\<rparr>"
    unfolding reply using message by (rule error_not_printed)
  have success: "getConsumption (sample_env 200 ''BODY'' infinite_payload) sample_request
          = success (consumption_data
              (round2 (sample_env 200 ''BODY'' infinite_payload)
                 (total_consumption (sample_env 200 ''BODY'' infinite_payload) infinite_payload))
              infinite_payload)"
    using empty_string_def [of "[]"]
    by (simp add: getConsumption_unfold sample_request_fields sample_upstream del: round2.simps)
  have payload: "\<not> encodable 510 infinite_payload"
    by (simp add: infinite_payload_def)
  show "getConsumption (sample_env 200 ''BODY'' infinite_payload) sample_request
     = \<lparr>http_response_code = 200, echo = NoOutput\<rparr>"
    unfolding success
    by (rule success_not_printed) (simp add: consumption_data_encodable payload)
qed

text \<open>
  Claim C10, as stated, fails for a preflight request: whatever its action, the script
  answers a request of method \<^verbatim>\<open>OPTIONS\<close> with status 200 and prints nothing, so the reply is
  no JSON object.
\<close>

theorem preflight_reply_not_json:
  "coalesce (POST (options_request [(''action'', ''login'')]) ''action'')
            (GET (options_request [(''action'', ''login'')]) ''action'') [] = ''login''
   \<and> echo (fst (relay (sample_env 200 ''BODY'' sample_payload)
                  (options_request [(''action'', ''login'')]) sample_server))
       = NoOutput
   \<and> \<not> success_shaped
         (echo (fst (relay (sample_env 200 ''BODY'' sample_payload)
                       (options_request [(''action'', ''login'')]) sample_server)))"
  by (simp add: relay_def options_request_def coalesce_def success_shaped_def)

text \<open>
  Claim C10, amended. For a request whose method is not \<^verbatim>\<open>OPTIONS\<close>, the body the relay prints
  is a JSON object with a boolean member \<^verbatim>\<open>success\<close>, a member \<^verbatim>\<open>data\<close> exactly when \<^verbatim>\<open>success\<close>
  is true and a member \<^verbatim>\<open>error\<close> exactly when it is false: for every action other than
  \<^verbatim>\<open>getConsumption\<close> (login, logout, unrecognized) and every outcome; for \<^verbatim>\<open>getConsumption\<close>
  when the key or the meter identifier is empty or what the reply takes from the upstream
  answer can be encoded; and in any case when the body is not empty. A request of method
  \<^verbatim>\<open>OPTIONS\<close> gets status 200 and no output.
\<close>

theorem relay_reply_shape:
  "(REQUEST_METHOD req \<noteq> ''OPTIONS''
      \<and> coalesce (POST req ''action'') (GET req ''action'') [] \<noteq> ''getConsumption'' \<longrightarrow>
      success_shaped (echo (fst (relay e req st))))
   \<and> (REQUEST_METHOD req \<noteq> ''OPTIONS''
      \<and> (empty_string (request_apiKey req) \<or> empty_string (request_meterId req)
          \<or> upstream_encodable e req) \<longrightarrow>
      success_shaped (echo (fst (relay e req st))))
   \<and> (REQUEST_METHOD req \<noteq> ''OPTIONS'' \<and> echo (fst (relay e req st)) \<noteq> NoOutput \<longrightarrow>
      success_shaped (echo (fst (relay e req st))))
   \<and> (REQUEST_METHOD req = ''OPTIONS'' \<longrightarrow>
        fst (relay e req st) = \<lparr>http_response_code = 200, echo = NoOutput\<rparr>)"
proof -
  have other: "coalesce (POST req ''action'') (GET req ''action'') [] \<noteq> ''getConsumption'' \<Longrightarrow>
      success_shaped (echo (fst (handleRequest e req st)))"
    unfolding handleRequest_def Let_def
    by (simp add: handleLogin_shaped handleLogout_shaped invalid_action_shaped)
  have encodable: "empty_string (request_apiKey req) \<or> empty_string (request_meterId req)
          \<or> upstream_encodable e req \<Longrightarrow>
      success_shaped (echo (fst (handleRequest e req st)))"
    unfolding handleRequest_def Let_def
    by (simp add: handleLogin_shaped handleLogout_shaped invalid_action_shaped
        getConsumption_shaped)
  have printed: "echo (fst (handleRequest e req st)) \<noteq> NoOutput \<Longrightarrow>
      success_shaped (echo (fst (handleRequest e req st)))"
    unfolding handleRequest_def Let_def
    by (simp add: handleLogin_shaped handleLogout_shaped invalid_action_shaped
        getConsumption_printed split: if_splits)
  show ?thesis
    using other encodable printed by (simp add: relay_def)
qed

theorem relay_reply_shape_witness:
  "REQUEST_METHOD (post_request [(''action'', ''logout'')]) \<noteq> ''OPTIONS''
   \<and> coalesce (POST (post_request [(''action'', ''logout'')]) ''action'')
               (GET (post_request [(''action'', ''logout'')]) ''action'') [] \<noteq> ''getConsumption''
   \<and> echo (fst (relay (sample_env 200 ''BODY'' sample_payload)
                  (post_request [(''action'', ''logout'')]) sample_server)) =
       JsonEncode (PArray [(StrKey ''success'', PBool True),
         (StrKey ''data'', PArray [(StrKey ''message'', PString ''Logged out successfully'')])])
   \<and> success_shaped
        (echo (fst (relay (sample_env 200 ''BODY'' sample_payload)
                      (post_request [(''action'', ''logout'')]) sample_server)))
   \<and> REQUEST_METHOD sample_request \<noteq> ''OPTIONS''
   \<and> upstream_encodable (sample_env 200 ''BODY'' sample_payload) sample_request
   \<and> echo (fst (relay (sample_env 200 ''BODY'' sample_payload) sample_request sample_server))
       \<noteq> NoOutput
   \<and> success_shaped
        (echo (fst (relay (sample_env 200 ''BODY'' sample_payload) sample_request sample_server)))
   \<and> REQUEST_METHOD (options_request []) = ''OPTIONS''
   \<and> fst (relay (sample_env 200 ''BODY'' sample_payload) (options_request []) sample_server) =
       \<lparr>http_response_code = 200, echo = NoOutput\<rparr>"
proof -
  let ?e = "sample_env 200 ''BODY'' sample_payload"
  have logout: "REQUEST_METHOD (post_request [(''action'', ''logout'')]) \<noteq> ''OPTIONS''"
    "coalesce (POST (post_request [(''action'', ''logout'')]) ''action'')
               (GET (post_request [(''action'', ''logout'')]) ''action'') [] \<noteq> ''getConsumption''"
    by (simp_all add: post_request_def coalesce_def)
  have logout_reply: "echo (fst (relay ?e (post_request [(''action'', ''logout'')]) sample_server)) =
       JsonEncode (PArray [(StrKey ''success'', PBool True),
         (StrKey ''data'', PArray [(StrKey ''message'', PString ''Logged out successfully'')])])"
    by (simp add: relay_def handleRequest_def handleLogout_def post_request_def coalesce_def
        success_def echo_json_encode_def json_encodable_def sample_server_def)
  have posted: "REQUEST_METHOD sample_request \<noteq> ''OPTIONS''"
    by (simp add: sample_request_def post_request_def)
  have "total_consumption ?e sample_payload = FloatTotal (Finite (25 / 8))"
    by (simp add: total_consumption_schema [OF sample_schema] php_sum_def reading_value_def
        reading_field_def isset_at_def floatval_def sample_env_def)
  then have enc: "upstream_encodable ?e sample_request"
    using empty_string_def [of "[]"]
    by (simp add: upstream_encodable_def sample_upstream sample_payload_def)
       (simp add: sample_env_def)
  have "success_shaped (echo (fst (relay ?e sample_request sample_server)))"
    using relay_reply_shape [of sample_request ?e sample_server] posted enc by simp
  moreover from this
  have "echo (fst (relay ?e sample_request sample_server)) \<noteq> NoOutput"
    by (auto simp: success_shaped_def)
  moreover have "success_shaped (echo (fst (relay ?e (post_request [(''action'', ''logout'')]) sample_server)))"
    using relay_reply_shape [of "post_request [(''action'', ''logout'')]" ?e sample_server] logout
    by simp
  moreover have "REQUEST_METHOD (options_request []) = ''OPTIONS''"
    by (simp add: options_request_def)
  moreover from this
  have "fst (relay ?e (options_request []) sample_server) =
       \<lparr>http_response_code = 200, echo = NoOutput\<rparr>"
    using relay_reply_shape [of "options_request []" ?e sample_server] by simp
  ultimately show ?thesis
    using logout logout_reply posted enc by simp
qed

end
